theory Spec2Isabelle
  imports Complex_Main "HOL-Library.Log_Nat"
begin

section \<open>Python values and exceptions\<close>

text \<open>
  The exceptions the embedded code can raise. \<open>ValueError\<close> and \<open>RuntimeError\<close> carry
  their message where the source distinguishes several of them.
\<close>

datatype error =
    FileNotFoundError
  | ValueError string
  | KeyError string
  | TypeError
  | IndexError
  | OverflowError
  | ZeroDivisionError
  | AttributeError string
  | RuntimeError string

text \<open>
  A Python \<^verbatim>\<open>float\<close> is an IEEE-754 binary64 number. \<open>Finite m e\<close> denotes the
  number \<open>m \<cdot> 2\<^sup>e\<close>; the sign of a zero is not represented (no operation of the embedded
  code observes it).
\<close>

datatype float64 = Finite int int | PosInf | NegInf | NaN

text \<open>
  What \<^verbatim>\<open>json.loads\<close> returns: \<^verbatim>\<open>None\<close>, a bool, an int, a float, a string, a
  list or a dict. A dict is the list of its items in insertion order (the keys are
  distinct, and all keys of a JSON object are strings).
\<close>

datatype json =
    JNull
  | JBool bool
  | JInt int
  | JFloat float64
  | JStr string
  | JList "json list"
  | JDict "(string \<times> json) list"

text \<open>\<^verbatim>\<open>isinstance(obj, dict)\<close> and \<^verbatim>\<open>obj.get(key)\<close> (\<open>None\<close> when the key is absent).\<close>

fun is_dict :: "json \<Rightarrow> bool" where
  "is_dict (JDict kvs) = True"
| "is_dict j = False"

fun dict_get :: "json \<Rightarrow> string \<Rightarrow> json option" where
  "dict_get (JDict kvs) k = map_of kvs k"
| "dict_get j k = None"

text \<open>\<^verbatim>\<open>len(x)\<close>: defined for lists, dicts and strings, a \<^verbatim>\<open>TypeError\<close> otherwise.\<close>

fun py_len :: "json \<Rightarrow> error + nat" where
  "py_len (JList xs) = Inr (length xs)"
| "py_len (JDict kvs) = Inr (length kvs)"
| "py_len (JStr s) = Inr (length s)"
| "py_len j = Inl TypeError"

text \<open>
  Iteration (\<^verbatim>\<open>for x in v\<close>): the elements of a list, the keys of a dict, the characters
  of a string.
\<close>

fun py_iter :: "json \<Rightarrow> error + json list" where
  "py_iter (JList xs) = Inr xs"
| "py_iter (JDict kvs) = Inr (map (\<lambda>kv. JStr (fst kv)) kvs)"
| "py_iter (JStr s) = Inr (map (\<lambda>c. JStr [c]) s)"
| "py_iter j = Inl TypeError"

text \<open>Python's \<^verbatim>\<open>str.startswith\<close> and the substring test \<^verbatim>\<open>k in s\<close> on strings.\<close>

definition startswith :: "string \<Rightarrow> string \<Rightarrow> bool" where
  "startswith s p = (take (length p) s = p)"

fun is_substring :: "string \<Rightarrow> string \<Rightarrow> bool" where
  "is_substring k [] = (k = [])"
| "is_substring k (c # cs) = (startswith (c # cs) k \<or> is_substring k cs)"

text \<open>
  \<^verbatim>\<open>k in v\<close> for a string \<open>k\<close>: key membership in a dict, element membership in a
  list, substring in a string, a \<^verbatim>\<open>TypeError\<close> otherwise.
\<close>

fun py_in :: "string \<Rightarrow> json \<Rightarrow> error + bool" where
  "py_in k (JDict kvs) = Inr (map_of kvs k \<noteq> None)"
| "py_in k (JList xs) = Inr (JStr k \<in> set xs)"
| "py_in k (JStr s) = Inr (is_substring k s)"
| "py_in k j = Inl TypeError"

text \<open>
  Subscripting: \<^verbatim>\<open>v[k]\<close> with a string key (\<^verbatim>\<open>KeyError\<close> on a dict without the
  key, \<^verbatim>\<open>TypeError\<close> on anything that is not a dict) and \<^verbatim>\<open>v[i]\<close> with a
  non-negative integer index (a dict loaded from JSON has no integer key).
\<close>

fun py_getitem :: "json \<Rightarrow> string \<Rightarrow> error + json" where
  "py_getitem (JDict kvs) k = (case map_of kvs k of None \<Rightarrow> Inl (KeyError k) | Some v \<Rightarrow> Inr v)"
| "py_getitem j k = Inl TypeError"

fun py_index :: "json \<Rightarrow> nat \<Rightarrow> error + json" where
  "py_index (JList xs) i = (if i < length xs then Inr (xs ! i) else Inl IndexError)"
| "py_index (JStr s) i = (if i < length s then Inr (JStr [s ! i]) else Inl IndexError)"
| "py_index (JDict kvs) i = Inl (KeyError [])"
| "py_index j i = Inl TypeError"

text \<open>Sequencing of computations that may raise.\<close>

fun bind_err :: "'x + 'a \<Rightarrow> ('a \<Rightarrow> 'x + 'b) \<Rightarrow> 'x + 'b" where
  "bind_err (Inr x) f = f x"
| "bind_err (Inl e) f = Inl e"

section \<open>Binary64 arithmetic\<close>

text \<open>
  CPython computes on floats with the IEEE-754 binary64 operations of the machine, each
  of which returns the representable number nearest to the exact result, ties going to
  the even significand; conversion of an int to a float and true division of two ints
  are correctly rounded in the same way. All exact results that occur are ratios of
  integers, so one rounding function on ratios serves every operation.
\<close>

text \<open>\<open>\<lfloor>log\<^sub>2 (a / d)\<rfloor>\<close> for positive \<open>a\<close> and \<open>d\<close>, by bit lengths and one comparison.\<close>

definition floor_log2_ratio :: "int \<Rightarrow> int \<Rightarrow> int" where
  "floor_log2_ratio a d =
     (let k = bitlen a - bitlen d
      in if (if 0 \<le> k then d * 2 ^ nat k \<le> a else d \<le> a * 2 ^ nat (- k)) then k else k - 1)"

text \<open>The integer nearest to \<open>a / d\<close> for \<open>a \<ge> 0\<close> and \<open>d > 0\<close>, ties to even.\<close>

definition round_half_even :: "int \<Rightarrow> int \<Rightarrow> int" where
  "round_half_even a d =
     (let t = a div d; r = a mod d
      in if d < 2 * r \<or> (2 * r = d \<and> odd t) then t + 1 else t)"

text \<open>
  The binary64 number nearest to \<open>n / d\<close> (\<open>d > 0\<close>). The spacing of the binary64
  numbers around a number of binary exponent \<open>p\<close> is \<open>2\<^sup>q\<close> with
  \<open>q = max (p - 52) (-1074)\<close> (the lower bound is the subnormal range); the result
  overflows to an infinity when the rounded value reaches \<open>2\<^sup>1\<^sup>0\<^sup>2\<^sup>4\<close>, that is when
  \<open>q > 971\<close> or \<open>q = 971\<close> and the significand was rounded up to \<open>2\<^sup>5\<^sup>3\<close>.
\<close>

definition round_ratio :: "int \<Rightarrow> int \<Rightarrow> float64" where
  "round_ratio n d =
     (if n = 0 then Finite 0 0
      else
        let a = \<bar>n\<bar>;
            q = max (floor_log2_ratio a d - 52) (- 1074);
            t = (if 0 \<le> q then round_half_even a (d * 2 ^ nat q)
                 else round_half_even (a * 2 ^ nat (- q)) d)
        in if 971 < q \<or> (q = 971 \<and> 2 ^ 53 \<le> t) then (if 0 < n then PosInf else NegInf)
           else Finite (sgn n * t) q)"

text \<open>The binary64 number nearest to \<open>m \<cdot> 2\<^sup>e\<close>.\<close>

definition round_dyadic :: "int \<Rightarrow> int \<Rightarrow> float64" where
  "round_dyadic m e = (if 0 \<le> e then round_ratio (m * 2 ^ nat e) 1 else round_ratio m (2 ^ nat (- e)))"

text \<open>A decimal literal such as \<^verbatim>\<open>0.075\<close> is the binary64 number nearest to \<open>75 / 1000\<close>.\<close>

definition float_lit :: "int \<Rightarrow> int \<Rightarrow> float64" where
  "float_lit n d = round_ratio n d"

text \<open>Sign of a float: \<open>1\<close>, \<open>0\<close> or \<open>-1\<close> (\<open>0\<close> also for a NaN).\<close>

fun fsign :: "float64 \<Rightarrow> int" where
  "fsign (Finite m e) = sgn m"
| "fsign PosInf = 1"
| "fsign NegInf = - 1"
| "fsign NaN = 0"

fun fneg :: "float64 \<Rightarrow> float64" where
  "fneg (Finite m e) = Finite (- m) e"
| "fneg PosInf = NegInf"
| "fneg NegInf = PosInf"
| "fneg NaN = NaN"

text \<open>
  Multiplication: the exact product of two finite numbers is \<open>(m\<^sub>1 m\<^sub>2) \<cdot> 2\<^sup>e\<^sup>1\<^sup>+\<^sup>e\<^sup>2\<close>;
  an infinity times zero is a NaN.
\<close>

fun fmul :: "float64 \<Rightarrow> float64 \<Rightarrow> float64" where
  "fmul (Finite m1 e1) (Finite m2 e2) = round_dyadic (m1 * m2) (e1 + e2)"
| "fmul NaN y = NaN"
| "fmul x NaN = NaN"
| "fmul x y =
     (if fsign x * fsign y = 0 then NaN else if 0 < fsign x * fsign y then PosInf else NegInf)"

text \<open>Addition: finite numbers are aligned to the smaller exponent and added exactly.\<close>

fun fadd :: "float64 \<Rightarrow> float64 \<Rightarrow> float64" where
  "fadd (Finite m1 e1) (Finite m2 e2) =
     (let e = min e1 e2 in round_dyadic (m1 * 2 ^ nat (e1 - e) + m2 * 2 ^ nat (e2 - e)) e)"
| "fadd NaN y = NaN"
| "fadd x NaN = NaN"
| "fadd PosInf NegInf = NaN"
| "fadd NegInf PosInf = NaN"
| "fadd PosInf y = PosInf"
| "fadd NegInf y = NegInf"
| "fadd x PosInf = PosInf"
| "fadd x NegInf = NegInf"

definition fsub :: "float64 \<Rightarrow> float64 \<Rightarrow> float64" where
  "fsub x y = fadd x (fneg y)"

text \<open>Comparison \<^verbatim>\<open>x <= y\<close> and \<^verbatim>\<open>x < y\<close>; every comparison with a NaN is false.\<close>

fun fle :: "float64 \<Rightarrow> float64 \<Rightarrow> bool" where
  "fle (Finite m1 e1) (Finite m2 e2) =
     (let e = min e1 e2 in m1 * 2 ^ nat (e1 - e) \<le> m2 * 2 ^ nat (e2 - e))"
| "fle NaN y = False"
| "fle x NaN = False"
| "fle NegInf y = True"
| "fle x PosInf = True"
| "fle x y = False"

fun flt :: "float64 \<Rightarrow> float64 \<Rightarrow> bool" where
  "flt (Finite m1 e1) (Finite m2 e2) =
     (let e = min e1 e2 in m1 * 2 ^ nat (e1 - e) < m2 * 2 ^ nat (e2 - e))"
| "flt NaN y = False"
| "flt x NaN = False"
| "flt PosInf y = False"
| "flt x NegInf = False"
| "flt x y = True"

text \<open>
  \<^verbatim>\<open>float(i)\<close> for an int, as in mixed arithmetic: correctly rounded, and an
  \<^verbatim>\<open>OverflowError\<close> when the int is too large.
\<close>

definition int_to_float :: "int \<Rightarrow> error + float64" where
  "int_to_float i =
     (case round_ratio i 1 of Finite m e \<Rightarrow> Inr (Finite m e) | _ \<Rightarrow> Inl OverflowError)"

text \<open>True division \<^verbatim>\<open>a / b\<close> of two ints.\<close>

definition int_truediv :: "int \<Rightarrow> int \<Rightarrow> error + float64" where
  "int_truediv a b =
     (if b = 0 then Inl ZeroDivisionError
      else case (if 0 < b then round_ratio a b else round_ratio (- a) (- b)) of
             Finite m e \<Rightarrow> Inr (Finite m e)
           | _ \<Rightarrow> Inl OverflowError)"

text \<open>
  \<^verbatim>\<open>int(x)\<close> for a float: truncation towards zero; an infinity raises
  \<^verbatim>\<open>OverflowError\<close>, a NaN \<^verbatim>\<open>ValueError\<close>.
\<close>

fun py_int :: "float64 \<Rightarrow> error + int" where
  "py_int (Finite m e) = Inr (if 0 \<le> e then m * 2 ^ nat e else sgn m * (\<bar>m\<bar> div 2 ^ nat (- e)))"
| "py_int NaN = Inl (ValueError ''cannot convert float NaN to integer'')"
| "py_int x = Inl OverflowError"

text \<open>The mixed operations \<^verbatim>\<open>x * i\<close> and \<^verbatim>\<open>i + x\<close> of a float and an int.\<close>

definition fmul_int :: "float64 \<Rightarrow> int \<Rightarrow> error + float64" where
  "fmul_int x i = bind_err (int_to_float i) (\<lambda>y. Inr (fmul x y))"

definition int_fadd :: "int \<Rightarrow> float64 \<Rightarrow> error + float64" where
  "int_fadd i x = bind_err (int_to_float i) (\<lambda>y. Inr (fadd y x))"

section \<open>Safety/proximity helpers (terminal\_v2.py)\<close>

text \<open>
  A pose is a Python list of integers (six joints and the gripper); Python's integers
  are unbounded, hence \<open>int\<close>. \<^verbatim>\<open>IGNORED_JOINTS = [3, 5, 6]\<close>.
\<close>

definition IGNORED_JOINTS :: "nat list" where
  "IGNORED_JOINTS = [3, 5, 6]"

definition TOLERANCE_ANGLE_UNITS :: int where
  "TOLERANCE_ANGLE_UNITS = 5 * 1000"

text \<open>\<^verbatim>\<open>[abs(a - b) for a, b in zip(pt_a, pt_b)]\<close>; \<open>zip\<close> stops at the shorter list.\<close>

definition abs_diffs :: "int list \<Rightarrow> int list \<Rightarrow> int list" where
  "abs_diffs pt_a pt_b = map (\<lambda>(a, b). \<bar>a - b\<bar>) (zip pt_a pt_b)"

text \<open>
  Modelled from the spec: the first statement of the body of \<^verbatim>\<open>if d > max_delta:\<close> in
  \<^verbatim>\<open>_max_delta_and_joint_ignored\<close> (terminal\_v2.py, line 462) is elided in the
  source text, only \<^verbatim>\<open>worst_joint = idx\<close> after it is present. The specification says
  that the function computes the per-joint absolute differences and reports both the
  maximum deviation and which joint produced it; the elided statement is therefore taken to
  record the new maximum, \<^verbatim>\<open>max_delta = d\<close>.
\<close>

definition elided_max_update :: "int \<Rightarrow> int \<Rightarrow> int" where
  "elided_max_update d max_delta = d"

text \<open>
  The loop \<^verbatim>\<open>for idx, d in enumerate(diffs)\<close> of \<^verbatim>\<open>_max_delta_and_joint_ignored\<close>,
  with the loop state \<open>(max_delta, worst_joint)\<close>; \<^verbatim>\<open>None\<close> is \<open>None\<close>.
\<close>

fun max_delta_loop :: "nat \<Rightarrow> int list \<Rightarrow> int \<times> nat option \<Rightarrow> int \<times> nat option" where
  "max_delta_loop idx [] st = st"
| "max_delta_loop idx (d # ds) (max_delta, worst_joint) =
     (if idx \<in> set IGNORED_JOINTS then max_delta_loop (Suc idx) ds (max_delta, worst_joint)
      else if d > max_delta
        then max_delta_loop (Suc idx) ds (elided_max_update d max_delta, Some idx)
      else max_delta_loop (Suc idx) ds (max_delta, worst_joint))"

text \<open>
  \<^verbatim>\<open>_max_delta_and_joint_ignored\<close>: starts from \<open>(-1, None)\<close> and returns
  \<^verbatim>\<open>(max_delta, worst_joint if worst_joint is not None else -1)\<close>.
\<close>

definition max_delta_and_joint_ignored :: "int list \<Rightarrow> int list \<Rightarrow> int \<times> int" where
  "max_delta_and_joint_ignored pt_a pt_b =
     (case max_delta_loop 0 (abs_diffs pt_a pt_b) (- 1, None) of
        (max_delta, worst_joint) \<Rightarrow>
          (max_delta, case worst_joint of None \<Rightarrow> - 1 | Some idx \<Rightarrow> int idx))"

text \<open>\<^verbatim>\<open>_is_close_ignored(pt_a, pt_b, tol=TOLERANCE_ANGLE_UNITS)\<close>.\<close>

definition is_close_ignored :: "int list \<Rightarrow> int list \<Rightarrow> int \<Rightarrow> bool" where
  "is_close_ignored pt_a pt_b tol = (fst (max_delta_and_joint_ignored pt_a pt_b) \<le> tol)"

section \<open>Track format layer (track.py)\<close>

text \<open>
  The tracks directory: a path either does not exist, or holds text that
  \<^verbatim>\<open>json.loads\<close> rejects, or holds a JSON document.
\<close>

datatype stored_file = Unparsable | Doc json

type_synonym files = "string \<Rightarrow> stored_file option"

definition track_path :: "string \<Rightarrow> string" where
  "track_path name = ''tracks/'' @ name @ ''.json''"

definition details_path :: "string \<Rightarrow> string" where
  "details_path name = ''tracks/'' @ name @ ''.details.json''"

text \<open>
  The dataclass \<^verbatim>\<open>TrackPoint\<close>. Python does not check the field types, so the types of
  the timestamp, coordinate and telemetry fields are parameters: the loader stores
  whatever JSON values the files hold.
\<close>

record ('t, 'c, 'd) TrackPoint =
  coordinates_timestamp :: 't
  coordinates :: 'c
  details_timestamp :: 't
  motor_speed_rpm :: 'd
  motor_current_ma :: 'd
  voltage_mv :: 'd
  motor_pos_deg001 :: 'd
  motor_effort_mNm :: 'd
  foc_temp_c :: 'd
  motor_temp_c :: 'd
  bus_current_ma :: 'd

text \<open>
  The three track classes with their instance attributes: \<^verbatim>\<open>name\<close> and
  \<^verbatim>\<open>_data\<close> for \<^verbatim>\<open>TrackV1\<close>; \<^verbatim>\<open>name\<close>, \<^verbatim>\<open>_raw\<close> and \<^verbatim>\<open>_pts\<close> for
  \<^verbatim>\<open>TrackV2\<close> and \<^verbatim>\<open>TrackV3Timed\<close>.
\<close>

datatype track =
    TrackV1 string json
  | TrackV2 string json json
  | TrackV3Timed string json json

text \<open>\<^verbatim>\<open>json.loads(self.path.read_text())\<close>, as every constructor starts.\<close>

definition load_json :: "files \<Rightarrow> string \<Rightarrow> error + json" where
  "load_json fs p =
     (case fs p of
        None \<Rightarrow> Inl FileNotFoundError
      | Some Unparsable \<Rightarrow> Inl (ValueError ''JSONDecodeError'')
      | Some (Doc obj) \<Rightarrow> Inr obj)"

text \<open>\<^verbatim>\<open>TrackV1.__init__\<close>: stores the document, whatever it is.\<close>

definition TrackV1_init :: "files \<Rightarrow> string \<Rightarrow> error + track" where
  "TrackV1_init fs name = bind_err (load_json fs (track_path name)) (\<lambda>obj. Inr (TrackV1 name obj))"

text \<open>\<^verbatim>\<open>obj.get("points", [])\<close>.\<close>

definition get_points :: "json \<Rightarrow> json" where
  "get_points obj = (case dict_get obj ''points'' of None \<Rightarrow> JList [] | Some p \<Rightarrow> p)"

text \<open>\<^verbatim>\<open>TrackV2.__init__\<close>.\<close>

definition TrackV2_init :: "files \<Rightarrow> string \<Rightarrow> error + track" where
  "TrackV2_init fs name =
     bind_err (load_json fs (track_path name)) (\<lambda>obj.
       if \<not> (is_dict obj \<and> dict_get obj ''version'' = Some (JStr ''v2.0''))
       then Inl (ValueError ''not a v2.0 track'')
       else Inr (TrackV2 name obj (get_points obj)))"

text \<open>
  The sanity check of \<^verbatim>\<open>TrackV3Timed.__init__\<close> over the entries of \<^verbatim>\<open>points\<close>:
  \<^verbatim>\<open>if "pt" not in item or "duration" not in item: raise ValueError\<close>.
\<close>

fun v3_check_items :: "json list \<Rightarrow> error + unit" where
  "v3_check_items [] = Inr ()"
| "v3_check_items (item # items) =
     (case py_in ''pt'' item of
        Inl e \<Rightarrow> Inl e
      | Inr has_pt \<Rightarrow>
          if \<not> has_pt then Inl (ValueError ''Each point entry must contain pt and duration'')
          else (case py_in ''duration'' item of
                  Inl e \<Rightarrow> Inl e
                | Inr has_dur \<Rightarrow>
                    if \<not> has_dur
                    then Inl (ValueError ''Each point entry must contain pt and duration'')
                    else v3_check_items items))"

definition TrackV3Timed_init :: "files \<Rightarrow> string \<Rightarrow> error + track" where
  "TrackV3Timed_init fs name =
     bind_err (load_json fs (track_path name)) (\<lambda>obj.
       if \<not> (is_dict obj \<and> dict_get obj ''version'' = Some (JStr ''v3.0''))
       then Inl (ValueError ''not a v3.0 timed track'')
       else (case get_points obj of
               JList items \<Rightarrow>
                 bind_err (v3_check_items items) (\<lambda>_. Inr (TrackV3Timed name obj (JList items)))
             | _ \<Rightarrow> Inl (ValueError ''points must be a list in v3 track'')))"

text \<open>
  \<^verbatim>\<open>TrackBase.read_track\<close>: a missing file raises \<^verbatim>\<open>FileNotFoundError\<close>, an
  unreadable one \<^verbatim>\<open>ValueError\<close>; then the version tag selects the class, and every
  other document falls back to \<^verbatim>\<open>TrackV1\<close>.
\<close>

definition read_track :: "files \<Rightarrow> string \<Rightarrow> error + track" where
  "read_track fs name =
     (case fs (track_path name) of
        None \<Rightarrow> Inl FileNotFoundError
      | Some Unparsable \<Rightarrow> Inl (ValueError ''Failed to read track'')
      | Some (Doc obj) \<Rightarrow>
          if is_dict obj \<and> dict_get obj ''version'' = Some (JStr ''v3.0'')
          then TrackV3Timed_init fs name
          else if is_dict obj \<and> dict_get obj ''version'' = Some (JStr ''v2.0'')
          then TrackV2_init fs name
          else TrackV1_init fs name)"

text \<open>
  The property \<^verbatim>\<open>TrackBase.details\<close>: the content of the details file when it exists
  and parses, the empty list in every other case (the exception is swallowed).
\<close>

definition details :: "files \<Rightarrow> string \<Rightarrow> json" where
  "details fs name =
     (case fs (details_path name) of Some (Doc j) \<Rightarrow> j | _ \<Rightarrow> JList [])"

text \<open>
  The construction of one \<^verbatim>\<open>TrackPoint\<close> in \<^verbatim>\<open>TrackV1.track_points\<close>: the
  subscripts \<^verbatim>\<open>det["ts"]\<close>, \<^verbatim>\<open>det["motor_speed_rpm"]\<close>, ... are evaluated in the
  order of the source, and the first missing key raises.
\<close>

definition v1_track_point :: "json \<Rightarrow> json \<Rightarrow> error + (json, json, json) TrackPoint" where
  "v1_track_point pt det =
     bind_err (py_getitem det ''ts'') (\<lambda>coords_ts.
     bind_err (py_getitem det ''ts'') (\<lambda>dts.
     bind_err (py_getitem det ''motor_speed_rpm'') (\<lambda>speed.
     bind_err (py_getitem det ''motor_current_ma'') (\<lambda>cur.
     bind_err (py_getitem det ''voltage_mv'') (\<lambda>volt.
     bind_err (py_getitem det ''motor_pos_deg001'') (\<lambda>pos.
     bind_err (py_getitem det ''motor_effort_mNm'') (\<lambda>eff.
     bind_err (py_getitem det ''foc_temp_c'') (\<lambda>foc.
     bind_err (py_getitem det ''motor_temp_c'') (\<lambda>mtemp.
     bind_err (py_getitem det ''bus_current_ma'') (\<lambda>bus.
       Inr \<lparr> coordinates_timestamp = coords_ts, coordinates = pt, details_timestamp = dts,
             motor_speed_rpm = speed, motor_current_ma = cur, voltage_mv = volt,
             motor_pos_deg001 = pos, motor_effort_mNm = eff, foc_temp_c = foc,
             motor_temp_c = mtemp, bus_current_ma = bus \<rparr>))))))))))"

text \<open>
  The loop \<^verbatim>\<open>for idx, pt in enumerate(self._data)\<close> of \<^verbatim>\<open>TrackV1.track_points\<close>.
\<close>

fun v1_combine :: "json \<Rightarrow> nat \<Rightarrow> json list \<Rightarrow> error + (json, json, json) TrackPoint list" where
  "v1_combine dets idx [] = Inr []"
| "v1_combine dets idx (pt # pts) =
     (case py_len dets of
        Inl e \<Rightarrow> Inl e
      | Inr n \<Rightarrow>
          if idx \<ge> n then Inl (ValueError ''Missing details entry for point index'')
          else (case py_index dets idx of
                  Inl e \<Rightarrow> Inl e
                | Inr det \<Rightarrow>
                    (case py_in ''ts'' det of
                       Inl e \<Rightarrow> Inl e
                     | Inr has_ts \<Rightarrow>
                         if \<not> has_ts then Inl (ValueError ''Missing ts in details for v1 track'')
                         else (case v1_track_point pt det of
                                 Inl e \<Rightarrow> Inl e
                               | Inr tp \<Rightarrow>
                                   (case v1_combine dets (Suc idx) pts of
                                      Inl e \<Rightarrow> Inl e
                                    | Inr tps \<Rightarrow> Inr (tp # tps))))))"

text \<open>
  \<^verbatim>\<open>TrackV1.track_points\<close>: the length check first
  (\<^verbatim>\<open>if len(details) != len(self._data): raise ValueError\<close>), then the loop.
\<close>

definition v1_track_points :: "files \<Rightarrow> string \<Rightarrow> json \<Rightarrow> error + (json, json, json) TrackPoint list" where
  "v1_track_points fs name data =
     bind_err (py_len (details fs name)) (\<lambda>n_details.
     bind_err (py_len data) (\<lambda>n_data.
       if n_details \<noteq> n_data
       then Inl (ValueError ''Details length must match points length for v1 track'')
       else bind_err (py_iter data) (\<lambda>pts. v1_combine (details fs name) 0 pts)))"

text \<open>
  A details entry that \<^verbatim>\<open>TrackV1.track_points\<close> can turn into a \<^verbatim>\<open>TrackPoint\<close>: a
  dict with the timestamp and the eight telemetry keys the loop subscripts.
\<close>

definition details_keys :: "string list" where
  "details_keys = [''ts'', ''motor_speed_rpm'', ''motor_current_ma'', ''voltage_mv'',
     ''motor_pos_deg001'', ''motor_effort_mNm'', ''foc_temp_c'', ''motor_temp_c'',
     ''bus_current_ma'']"

definition complete_details :: "json \<Rightarrow> bool" where
  "complete_details det = (is_dict det \<and> list_all (\<lambda>k. dict_get det k \<noteq> None) details_keys)"

text \<open>Example tracks directories.\<close>

definition unknown_version_doc :: json where
  "unknown_version_doc = JDict [(''version'', JStr ''v9.9''), (''points'', JList [])]"

definition unknown_version_fs :: files where
  "unknown_version_fs =
     (\<lambda>p. if p = track_path ''left__wave'' then Some (Doc unknown_version_doc) else None)"

definition empty_track_fs :: files where
  "empty_track_fs = (\<lambda>p. if p = track_path ''left__wave'' then Some (Doc (JList [])) else None)"

definition wave_pose :: json where
  "wave_pose = JList [JInt 0, JInt 0, JInt 0, JInt 0, JInt 0, JInt 0, JInt 0]"

definition wave_details :: json where
  "wave_details = JDict [(''ts'', JInt 1), (''motor_speed_rpm'', JList []),
     (''motor_current_ma'', JList []), (''voltage_mv'', JList []),
     (''motor_pos_deg001'', JList []), (''motor_effort_mNm'', JList []),
     (''foc_temp_c'', JList []), (''motor_temp_c'', JList []), (''bus_current_ma'', JList [])]"

definition wave_fs :: "json list \<Rightarrow> files" where
  "wave_fs ds =
     (\<lambda>p. if p = track_path ''left__wave'' then Some (Doc (JList [wave_pose, wave_pose, wave_pose]))
          else if p = details_path ''left__wave'' then Some (Doc (JList ds))
          else None)"

definition broken_details_fs :: files where
  "broken_details_fs =
     (\<lambda>p. if p = track_path ''left__wave'' then Some (Doc (JList [wave_pose]))
          else if p = details_path ''left__wave'' then Some Unparsable
          else None)"

section \<open>Arms, environment and low-level helpers (terminal\_v2.py)\<close>

text \<open>
  The calls the terminal makes on an arm through the SDK. \<^verbatim>\<open>ModeCtrl\<close> is called with
  or without \<^verbatim>\<open>move_spd_rate_ctrl\<close>.
\<close>

datatype command =
    JointCtrl "int list"
  | GripperCtrl int int int int
  | EnableArm int
  | ModeCtrl int int "int option"

datatype side = Left | Right

text \<open>
  The terminal together with everything outside the program that it observes. Each
  observation (a poll of an arm's joint and gripper feedback, a read of the pause file, a
  test of the stop event, a reading of a clock) takes the value the environment gives at
  the current observation count \<open>tick\<close> and advances the count, so the environment is an
  arbitrary function of the number of observations made so far. \<open>cmds\<close> is the sequence
  of SDK calls issued so far, each with the arm it went to; \<open>warnings\<close> collects the
  messages logged at warning level. \<open>sent_points\<close> is an auxiliary history, used only
  to state properties: the points that \<^verbatim>\<open>_send_point\<close> has sent so far (those a
  registered point hook is called with), each with its arm.
\<close>

record world =
  left_arm :: bool
  right_arm :: bool
  feedback :: "side \<Rightarrow> nat \<Rightarrow> int list"
  pause_file :: "nat \<Rightarrow> bool"
  stop_flag :: "nat \<Rightarrow> bool"
  perf_clock :: "nat \<Rightarrow> float64"
  wall_clock :: "nat \<Rightarrow> float64"
  tick :: nat
  cmds :: "(side \<times> command) list"
  warnings :: "string list"
  sent_points :: "(side \<times> int list) list"

text \<open>
  The result of a method that may raise: the exception or the returned value, with the
  world as it is at that moment. A method that does not return at all has no outcome
  (\<open>None\<close>).
\<close>

datatype 'a outcome = Raised error world | Returned 'a world

definition advance :: "world \<Rightarrow> world" where
  "advance w = w\<lparr>tick := Suc (tick w)\<rparr>"

text \<open>
  \<^verbatim>\<open>arm.GetArmJointMsgs().joint_state\<close> and \<^verbatim>\<open>arm.GetArmGripperMsgs().gripper_state\<close>
  read into the list \<^verbatim>\<open>pt\<close> of six joints and the gripper angle.
\<close>

definition read_feedback :: "side \<Rightarrow> world \<Rightarrow> int list \<times> world" where
  "read_feedback arm w = (feedback w arm (tick w), advance w)"

text \<open>\<^verbatim>\<open>_external_pause_active\<close>: the pause file holds exactly \<^verbatim>\<open>1\<close>; read errors count as no pause.\<close>

definition external_pause_active :: "world \<Rightarrow> bool \<times> world" where
  "external_pause_active w = (pause_file w (tick w), advance w)"

text \<open>\<^verbatim>\<open>self._play_stop.is_set()\<close>.\<close>

definition play_stop_is_set :: "world \<Rightarrow> bool \<times> world" where
  "play_stop_is_set w = (stop_flag w (tick w), advance w)"

text \<open>\<^verbatim>\<open>time.perf_counter()\<close> and \<^verbatim>\<open>time.time()\<close>.\<close>

definition perf_counter :: "world \<Rightarrow> float64 \<times> world" where
  "perf_counter w = (perf_clock w (tick w), advance w)"

definition time_time :: "world \<Rightarrow> float64 \<times> world" where
  "time_time w = (wall_clock w (tick w), advance w)"

definition sdk_call :: "side \<Rightarrow> command \<Rightarrow> world \<Rightarrow> world" where
  "sdk_call arm c w = w\<lparr>cmds := cmds w @ [(arm, c)]\<rparr>"

definition log_warning :: "string \<Rightarrow> world \<Rightarrow> world" where
  "log_warning msg w = w\<lparr>warnings := warnings w @ [msg]\<rparr>"

text \<open>
  The loop \<^verbatim>\<open>while True\<close> of \<^verbatim>\<open>_current_point\<close>, with the loop state
  \<^verbatim>\<open>warned_at\<close>. The only \<^verbatim>\<open>return\<close> is the one under
  \<^verbatim>\<open>if any(v != 0 for v in pt)\<close>; the branch taken after the deadline logs a warning
  (when more than 0.1 s have passed since the last one) and falls through to the sleep and
  the next iteration.
\<close>

partial_function (option) current_point_loop ::
  "side \<Rightarrow> float64 \<Rightarrow> float64 \<Rightarrow> world \<Rightarrow> (int list \<times> world) option" where
  "current_point_loop arm deadline warned_at w =
     (case read_feedback arm w of (pt, w1) \<Rightarrow>
        if list_ex (\<lambda>v. v \<noteq> 0) pt then Some (pt, w1)
        else (case perf_counter w1 of (now, w2) \<Rightarrow>
          if fle deadline now
          then (case time_time w2 of (t, w3) \<Rightarrow>
                  if flt (float_lit 1 10) (fsub t warned_at)
                  then (case time_time
                               (log_warning ''[DATA] No valid joint data for >100 ms (all zeros)'' w3) of
                          (t', w4) \<Rightarrow> current_point_loop arm deadline t' w4)
                  else current_point_loop arm deadline warned_at w3)
          else current_point_loop arm deadline warned_at w2))"

declare current_point_loop.simps [code]

text \<open>
  \<^verbatim>\<open>_current_point\<close>: \<^verbatim>\<open>deadline = time.perf_counter() + 0.1\<close>,
  \<^verbatim>\<open>warned_at = time.time()\<close>, then the loop.
\<close>

definition current_point :: "side \<Rightarrow> world \<Rightarrow> (int list \<times> world) option" where
  "current_point arm w =
     (case perf_counter w of (p, w1) \<Rightarrow>
      case time_time w1 of (t, w2) \<Rightarrow>
        current_point_loop arm (fadd p (float_lit 1 10)) t w2)"

text \<open>
  An environment in which the link to both arms reports zeros for all joints and the
  gripper at every poll; the clocks advance by 5 ms per observation.
\<close>

definition dead_link_world :: world where
  "dead_link_world =
     \<lparr>left_arm = True, right_arm = True,
      feedback = (\<lambda>arm k. [0, 0, 0, 0, 0, 0, 0]),
      pause_file = (\<lambda>k. False), stop_flag = (\<lambda>k. False),
      perf_clock = (\<lambda>k. round_ratio (int k) 200),
      wall_clock = (\<lambda>k. round_ratio (int k) 200),
      tick = 0, cmds = [], warnings = [], sent_points = []\<rparr>"

text \<open>
  \<^verbatim>\<open>GRIPPER_EFFORT = 5000\<close> and \<^verbatim>\<open>GRIPPER_TIGHT_COEFFICEINT = 0.075\<close>.
\<close>

definition GRIPPER_EFFORT :: int where
  "GRIPPER_EFFORT = 5000"

definition GRIPPER_TIGHT_COEFFICEINT :: float64 where
  "GRIPPER_TIGHT_COEFFICEINT = float_lit 75 1000"

text \<open>
  The tightened gripper value \<^verbatim>\<open>int(eff[6] * (1 - GRIPPER_TIGHT_COEFFICEINT))\<close>: the
  int is converted to a float, multiplied by the float \<^verbatim>\<open>1 - 0.075\<close>, and the product
  is truncated.
\<close>

definition tighten :: "int \<Rightarrow> error + int" where
  "tighten g =
     bind_err (fmul_int (fsub (Finite 1 0) GRIPPER_TIGHT_COEFFICEINT) g) py_int"

text \<open>
  \<^verbatim>\<open>_effective_target\<close>: a copy of \<^verbatim>\<open>pt\<close> with index 6 replaced by the tightened
  value when the coefficient is positive; \<^verbatim>\<open>eff[6]\<close> raises \<^verbatim>\<open>IndexError\<close> on a
  list of fewer than seven elements.
\<close>

definition effective_target :: "int list \<Rightarrow> error + int list" where
  "effective_target pt =
     (if flt (Finite 0 0) GRIPPER_TIGHT_COEFFICEINT
      then (if length pt \<le> 6 then Inl IndexError
            else bind_err (tighten (pt ! 6)) (\<lambda>g. Inr (pt[6 := g])))
      else Inr pt)"

text \<open>
  \<^verbatim>\<open>_send_point\<close>: \<^verbatim>\<open>arm.JointCtrl(*eff_pt[:6])\<close>, which takes exactly six
  arguments, then \<^verbatim>\<open>arm.GripperCtrl(eff_pt[6], GRIPPER_EFFORT, 0x01, 0)\<close>. The point
  hook, when one is set, then receives \<^verbatim>\<open>pt\<close> and cannot make the method fail; the
  history \<open>sent_points\<close> records the point at that place.
\<close>

definition send_point :: "side \<Rightarrow> int list \<Rightarrow> world \<Rightarrow> unit outcome" where
  "send_point arm pt w =
     (case effective_target pt of
        Inl e \<Rightarrow> Raised e w
      | Inr eff_pt \<Rightarrow>
          if length eff_pt < 6 then Raised TypeError w
          else (let w1 = sdk_call arm (JointCtrl (take 6 eff_pt)) w
                in if length eff_pt \<le> 6 then Raised IndexError w1
                   else (let w2 = sdk_call arm (GripperCtrl (eff_pt ! 6) GRIPPER_EFFORT 1 0) w1
                         in Returned () (w2\<lparr>sent_points := sent_points w2 @ [(arm, pt)]\<rparr>))))"

text \<open>\<^verbatim>\<open>_prepare_track_play\<close>.\<close>

definition prepare_track_play :: "side \<Rightarrow> world \<Rightarrow> world" where
  "prepare_track_play arm w = sdk_call arm (ModeCtrl 1 1 (Some 50)) (sdk_call arm (EnableArm 7) w)"

text \<open>
  \<^verbatim>\<open>_is_close_strict(pt_a, pt_b, tol, gripper_tol)\<close>: \<^verbatim>\<open>pt[:-1]\<close> is
  \<open>butlast\<close>, and \<^verbatim>\<open>pt[-1]\<close> raises \<^verbatim>\<open>IndexError\<close> on an empty list.
\<close>

definition is_close_strict :: "int list \<Rightarrow> int list \<Rightarrow> int \<Rightarrow> int option \<Rightarrow> error + bool" where
  "is_close_strict pt_a pt_b tol gripper_tol =
     (if pt_a = [] \<or> pt_b = [] then Inl IndexError
      else (let motors_flag = list_all (\<lambda>d. d \<le> tol) (abs_diffs (butlast pt_a) (butlast pt_b));
                gtol = (case gripper_tol of None \<Rightarrow> tol | Some g \<Rightarrow> g);
                gripper_flag = (\<bar>last pt_a - last pt_b\<bar> \<le> gtol)
            in Inr (motors_flag \<and> gripper_flag)))"

text \<open>The dataclass \<^verbatim>\<open>PiperResponse\<close> with its fields \<^verbatim>\<open>ok\<close>, \<^verbatim>\<open>error\<close> and \<^verbatim>\<open>note\<close>.\<close>

record PiperResponse =
  resp_ok :: bool
  resp_error :: "string option"
  resp_note :: "string option"

text \<open>
  The list comprehensions of \<^verbatim>\<open>_move_smooth\<close>:
  \<^verbatim>\<open>[(t - c) / steps for c, t in zip(curr, target_pt)]\<close> and
  \<^verbatim>\<open>[int(c + d * i) for c, d in zip(curr, diffs)]\<close>.
\<close>

fun smooth_diffs :: "int list \<Rightarrow> int list \<Rightarrow> int \<Rightarrow> error + float64 list" where
  "smooth_diffs (c # cs) (t # ts) steps =
     (case int_truediv (t - c) steps of
        Inl e \<Rightarrow> Inl e
      | Inr d \<Rightarrow> (case smooth_diffs cs ts steps of Inl e \<Rightarrow> Inl e | Inr ds \<Rightarrow> Inr (d # ds)))"
| "smooth_diffs cs ts steps = Inr []"

text \<open>\<^verbatim>\<open>int(c + d * i)\<close>.\<close>

definition interpolate :: "int \<Rightarrow> float64 \<Rightarrow> int \<Rightarrow> error + int" where
  "interpolate c d i =
     bind_err (fmul_int d i) (\<lambda>di. bind_err (int_fadd c di) py_int)"

fun smooth_pt :: "int list \<Rightarrow> float64 list \<Rightarrow> int \<Rightarrow> error + int list" where
  "smooth_pt (c # cs) (d # ds) i =
     (case interpolate c d i of
        Inl e \<Rightarrow> Inl e
      | Inr v \<Rightarrow> (case smooth_pt cs ds i of Inl e \<Rightarrow> Inl e | Inr vs \<Rightarrow> Inr (v # vs)))"
| "smooth_pt cs ds i = Inr []"

text \<open>The loop \<^verbatim>\<open>for i in range(steps)\<close> of \<^verbatim>\<open>_move_smooth\<close>, over the values of \<open>i\<close>.\<close>

fun smooth_loop :: "side \<Rightarrow> int list \<Rightarrow> float64 list \<Rightarrow> int list \<Rightarrow> world \<Rightarrow> unit outcome" where
  "smooth_loop arm cur dfs [] w = Returned () w"
| "smooth_loop arm cur dfs (i # rest) w =
     (case smooth_pt cur dfs i of
        Inl e \<Rightarrow> Raised e w
      | Inr pt \<Rightarrow>
          (case send_point arm pt w of
             Raised e w1 \<Rightarrow> Raised e w1
           | Returned u w1 \<Rightarrow> smooth_loop arm cur dfs rest w1))"

text \<open>
  \<^verbatim>\<open>_move_smooth(arm, target_pt, steps, hz)\<close>. \<^verbatim>\<open>range(steps)\<close> is
  \<open>[0..steps - 1]\<close>; \<^verbatim>\<open>period = 1.0 / hz\<close> raises on \<open>hz = 0\<close>.
\<close>

definition move_smooth :: "side \<Rightarrow> int list \<Rightarrow> int \<Rightarrow> int \<Rightarrow> world \<Rightarrow> PiperResponse outcome option" where
  "move_smooth arm target_pt steps hz w =
     (case current_point arm w of
        None \<Rightarrow> None
      | Some (cur, w1) \<Rightarrow>
          (case smooth_diffs cur target_pt steps of
             Inl e \<Rightarrow> Some (Raised e w1)
           | Inr dfs \<Rightarrow>
               if hz = 0 then Some (Raised ZeroDivisionError w1)
               else (case smooth_loop arm cur dfs [0..steps - 1] w1 of
                       Raised e w2 \<Rightarrow> Some (Raised e w2)
                     | Returned u w2 \<Rightarrow>
                         (case current_point arm w2 of
                            None \<Rightarrow> None
                          | Some (reached, w3) \<Rightarrow>
                              (case is_close_strict reached target_pt TOLERANCE_ANGLE_UNITS None of
                                 Inl e \<Rightarrow> Some (Raised e w3)
                               | Inr close \<Rightarrow>
                                   if \<not> close
                                   then Some (Returned \<lparr>resp_ok = False,
                                           resp_error = Some ''not close to target_pt'', resp_note = None\<rparr> w3)
                                   else Some (Returned \<lparr>resp_ok = True, resp_error = None, resp_note = None\<rparr> w3))))))"

section \<open>Playback engine (terminal\_v2.py)\<close>

text \<open>
  The pause handling shared by both playback loops. The inner loop
  \<^verbatim>\<open>while self._external_pause_active() and not self._play_stop.is_set()\<close> may run
  forever; the stop event is tested only when the pause file reads as active.
\<close>

partial_function (option) pause_wait :: "world \<Rightarrow> world option" where
  "pause_wait w =
     (case external_pause_active w of (active, w1) \<Rightarrow>
        if active
        then (case play_stop_is_set w1 of (stop, w2) \<Rightarrow>
                if stop then Some w2 else pause_wait w2)
        else Some w1)"

declare pause_wait.simps [code]

text \<open>
  The two \<^verbatim>\<open>if\<close> statements around it, with the flag \<^verbatim>\<open>paused_by_file\<close>: on
  entering a pause the motion mode is disengaged (\<^verbatim>\<open>ModeCtrl(0x00, 0x00)\<close>), and once
  the flag is set and the pause file no longer reads as active it is engaged again.
\<close>

definition pause_check :: "side \<Rightarrow> bool \<Rightarrow> world \<Rightarrow> (bool \<times> world) option" where
  "pause_check arm paused_by_file w =
     (case external_pause_active w of (active, w1) \<Rightarrow>
        (case (if active
               then (case pause_wait (if \<not> paused_by_file
                                      then sdk_call arm (ModeCtrl 0 0 None) w1 else w1) of
                       None \<Rightarrow> None
                     | Some w2 \<Rightarrow> Some (True, w2))
               else Some (paused_by_file, w1)) of
           None \<Rightarrow> None
         | Some (paused, w3) \<Rightarrow>
             if paused
             then (case external_pause_active w3 of (still_active, w4) \<Rightarrow>
                     if \<not> still_active
                     then Some (False, sdk_call arm (ModeCtrl 1 1 (Some 50)) w4)
                     else Some (True, w4))
             else Some (False, w3)))"

subsection \<open>Timed (sparse) tracks\<close>

text \<open>
  What \<^verbatim>\<open>_run_timed_track\<close> reads from a \<^verbatim>\<open>TrackV3Timed\<close> object: its name (which
  decides \<^verbatim>\<open>speed_up\<close>), \<^verbatim>\<open>points\<close> and \<^verbatim>\<open>durations\<close>.
\<close>

record timed_track =
  track_name :: string
  points :: "int list list"
  durations :: "float64 list"

text \<open>
  The property \<^verbatim>\<open>TrackV3Timed.speed_up\<close>, a table on the track name. The entries that
  return the int \<^verbatim>\<open>0\<close> are given as the float zero: \<^verbatim>\<open>1 - 0\<close> is then the float
  \<open>1\<close> instead of the int \<open>1\<close>, and multiplying a float by either gives the same float.
\<close>

definition speed_up :: "string \<Rightarrow> float64" where
  "speed_up name =
     (if name = ''left__open_door'' then Finite 0 0
      else if name = ''left__lopatka1'' then float_lit 15 100
      else if name = ''right__open_door'' then float_lit 3 10
      else if name = ''right__meat'' then float_lit 2 10
      else if name = ''right__tomat'' then float_lit 47 100
      else if name = ''right__salt'' then float_lit 2 10
      else if name = ''right__lapsha'' then float_lit 3 10
      else if name = ''right__cheese'' then float_lit 15 100
      else if name = ''right__close_door'' then float_lit 1 10
      else if name = ''left__close_door'' then float_lit 25 100
      else if name = ''left__colba1'' then float_lit 3 10
      else if name = ''left__lopatka2_open'' then float_lit 6 10
      else if name = ''left__lopatka2_mix'' then float_lit 6 10
      else if name = ''left__lopatka2_close'' then float_lit 6 10
      else if name = ''left__lopatka2_open_faster'' then float_lit 6 10
      else if name = ''left__lopatka2_mix_faster'' then float_lit 6 10
      else if name = ''left__lopatka2_close_faster'' then float_lit 6 10
      else if name = ''left__colba_suhtrav'' then Finite 0 0
      else if name = ''left__colba_svezhtrav'' then Finite 0 0
      else Finite 0 0)"

text \<open>
  \<^verbatim>\<open>dur = float(durations[idx] * (1 - trk_obj.speed_up))\<close> and
  \<^verbatim>\<open>steps = max(1, int(dur * hz))\<close>.
\<close>

definition timed_steps :: "float64 \<Rightarrow> float64 \<Rightarrow> int \<Rightarrow> error + int" where
  "timed_steps duration su hz =
     bind_err (fmul_int (fmul duration (fsub (Finite 1 0) su)) hz) (\<lambda>x.
     bind_err (py_int x) (\<lambda>n. Inr (max 1 n)))"

text \<open>
  \<^verbatim>\<open>pt = [int(start_pt[i] + diffs[i] * step) for i in range(7)]\<close>; a subscript
  beyond the end of either list raises \<^verbatim>\<open>IndexError\<close>.
\<close>

fun timed_pt_from :: "nat list \<Rightarrow> int list \<Rightarrow> float64 list \<Rightarrow> int \<Rightarrow> error + int list" where
  "timed_pt_from [] start_pt dfs step = Inr []"
| "timed_pt_from (i # idxs) start_pt dfs step =
     (if length start_pt \<le> i \<or> length dfs \<le> i then Inl IndexError
      else (case interpolate (start_pt ! i) (dfs ! i) step of
              Inl e \<Rightarrow> Inl e
            | Inr v \<Rightarrow>
                (case timed_pt_from idxs start_pt dfs step of
                   Inl e \<Rightarrow> Inl e
                 | Inr vs \<Rightarrow> Inr (v # vs))))"

definition timed_pt :: "int list \<Rightarrow> float64 list \<Rightarrow> int \<Rightarrow> error + int list" where
  "timed_pt start_pt dfs step = timed_pt_from [0..<7] start_pt dfs step"

text \<open>
  The inner loop \<^verbatim>\<open>for step in range(1, steps + 1)\<close>, over the values of \<open>step\<close>. The
  result tells whether the loop was left by \<^verbatim>\<open>break\<close> (the stop event was set).
\<close>

fun timed_step_loop ::
  "side \<Rightarrow> int list \<Rightarrow> float64 list \<Rightarrow> int list \<Rightarrow> bool \<Rightarrow> world \<Rightarrow> bool outcome option" where
  "timed_step_loop arm start_pt dfs [] paused_by_file w = Some (Returned False w)"
| "timed_step_loop arm start_pt dfs (step # rest) paused_by_file w =
     (case timed_pt start_pt dfs step of
        Inl e \<Rightarrow> Some (Raised e w)
      | Inr pt \<Rightarrow>
          (case pause_check arm paused_by_file w of
             None \<Rightarrow> None
           | Some (paused, w1) \<Rightarrow>
               (case send_point arm pt w1 of
                  Raised e w2 \<Rightarrow> Some (Raised e w2)
                | Returned u w2 \<Rightarrow>
                    (case play_stop_is_set w2 of (stop, w3) \<Rightarrow>
                       if stop then Some (Returned True w3)
                       else timed_step_loop arm start_pt dfs rest paused w3))))"

text \<open>
  The outer loop \<^verbatim>\<open>for idx in range(1, len(points))\<close>, over the values of \<open>idx\<close>.
  After the inner loop the stop event is tested once more.
\<close>

fun timed_segment_loop ::
  "side \<Rightarrow> timed_track \<Rightarrow> int \<Rightarrow> nat list \<Rightarrow> world \<Rightarrow> unit outcome option" where
  "timed_segment_loop arm trk hz [] w = Some (Returned () w)"
| "timed_segment_loop arm trk hz (idx # rest) w =
     (if length (durations trk) \<le> idx then Some (Raised IndexError w)
      else (case timed_steps (durations trk ! idx) (speed_up (track_name trk)) hz of
              Inl e \<Rightarrow> Some (Raised e w)
            | Inr steps \<Rightarrow>
                (case smooth_diffs (points trk ! (idx - 1)) (points trk ! idx) steps of
                   Inl e \<Rightarrow> Some (Raised e w)
                 | Inr dfs \<Rightarrow>
                     (case timed_step_loop arm (points trk ! (idx - 1)) dfs [1..steps] False w of
                        None \<Rightarrow> None
                      | Some (Raised e w1) \<Rightarrow> Some (Raised e w1)
                      | Some (Returned broke w1) \<Rightarrow>
                          (case play_stop_is_set w1 of (stop, w2) \<Rightarrow>
                             if stop then Some (Returned () w2)
                             else timed_segment_loop arm trk hz rest w2)))))"

text \<open>
  \<^verbatim>\<open>_run_timed_track(arm, trk_obj, hz)\<close>. An empty track only logs a warning; a track
  of one point is handed to \<^verbatim>\<open>_move_smooth\<close> with its default arguments (100 steps,
  50 Hz), whose response is dropped; otherwise the segments are played and the motion
  mode is disengaged at the end, where the stop event is read once more for the log.
\<close>

definition run_timed_track :: "side \<Rightarrow> timed_track \<Rightarrow> int \<Rightarrow> world \<Rightarrow> unit outcome option" where
  "run_timed_track arm trk hz w =
     (if length (points trk) = 0
      then Some (Returned () (log_warning ''[PLAY_V2] empty track'' w))
      else if length (points trk) = 1
      then (case move_smooth arm (points trk ! 0) 100 50 (prepare_track_play arm w) of
              None \<Rightarrow> None
            | Some (Raised e w1) \<Rightarrow> Some (Raised e w1)
            | Some (Returned resp w1) \<Rightarrow> Some (Returned () (sdk_call arm (ModeCtrl 0 0 None) w1)))
      else if hz = 0 then Some (Raised ZeroDivisionError (prepare_track_play arm w))
      else (case timed_segment_loop arm trk hz [1..<length (points trk)] (prepare_track_play arm w) of
              None \<Rightarrow> None
            | Some (Raised e w1) \<Rightarrow> Some (Raised e w1)
            | Some (Returned u w1) \<Rightarrow>
                Some (Returned () (snd (play_stop_is_set (sdk_call arm (ModeCtrl 0 0 None) w1))))))"

subsection \<open>Dense tracks\<close>

text \<open>
  The wait of \<^verbatim>\<open>_run_track\<close> for a point's recorded time offset:
  \<^verbatim>\<open>while True: run_time = time.time() - started_at; if run_time >= target_offset or
  self._play_stop.is_set(): break\<close>.
\<close>

partial_function (option) sync_wait :: "float64 \<Rightarrow> float64 \<Rightarrow> world \<Rightarrow> world option" where
  "sync_wait started_at target_offset w =
     (case time_time w of (now, w1) \<Rightarrow>
        if fle target_offset (fsub now started_at) then Some w1
        else (case play_stop_is_set w1 of (stop, w2) \<Rightarrow>
                if stop then Some w2 else sync_wait started_at target_offset w2))"

declare sync_wait.simps [code]

text \<open>
  The loop \<^verbatim>\<open>for idx, tp in enumerate(data)\<close> of \<^verbatim>\<open>_run_track\<close>; the flag
  \<^verbatim>\<open>paused_by_file\<close> lives across the iterations. The progress log is left out.
\<close>

fun run_track_loop ::
  "side \<Rightarrow> float64 \<Rightarrow> float64 \<Rightarrow> (float64, int list, 'd) TrackPoint list \<Rightarrow> bool \<Rightarrow> world \<Rightarrow>
   unit outcome option" where
  "run_track_loop arm started_at first_ts [] paused_by_file w = Some (Returned () w)"
| "run_track_loop arm started_at first_ts (tp # rest) paused_by_file w =
     (case play_stop_is_set w of (stop, w1) \<Rightarrow>
        if stop then Some (Returned () w1)
        else (case sync_wait started_at (fsub (coordinates_timestamp tp) first_ts) w1 of
                None \<Rightarrow> None
              | Some w2 \<Rightarrow>
                  (case send_point arm (coordinates tp) w2 of
                     Raised e w3 \<Rightarrow> Some (Raised e w3)
                   | Returned u w3 \<Rightarrow>
                       (case pause_check arm paused_by_file w3 of
                          None \<Rightarrow> None
                        | Some (paused, w4) \<Rightarrow>
                            run_track_loop arm started_at first_ts rest paused w4))))"

text \<open>
  \<^verbatim>\<open>_run_track(arm, data)\<close>: the mode is prepared before \<^verbatim>\<open>data[0]\<close> is read, which
  raises \<^verbatim>\<open>IndexError\<close> on an empty track.
\<close>

definition run_track ::
  "side \<Rightarrow> (float64, int list, 'd) TrackPoint list \<Rightarrow> world \<Rightarrow> unit outcome option" where
  "run_track arm data w =
     (case time_time (prepare_track_play arm w) of (started_at, w1) \<Rightarrow>
        (case data of
           [] \<Rightarrow> Some (Raised IndexError w1)
         | tp0 # tps \<Rightarrow>
             (case run_track_loop arm started_at (coordinates_timestamp tp0) data False w1 of
                None \<Rightarrow> None
              | Some (Raised e w2) \<Rightarrow> Some (Raised e w2)
              | Some (Returned u w2) \<Rightarrow>
                  Some (Returned () (snd (play_stop_is_set (sdk_call arm (ModeCtrl 0 0 None) w2)))))))"

subsection \<open>The play command\<close>

text \<open>\<^verbatim>\<open>_arm_from_name\<close>.\<close>

definition arm_from_name :: "string \<Rightarrow> world \<Rightarrow> error + side" where
  "arm_from_name full_name w =
     (if startswith full_name ''left__''
      then (if \<not> left_arm w then Inl (RuntimeError ''Left arm is not initialised/connected.'')
            else Inr Left)
      else if startswith full_name ''right__''
      then (if \<not> right_arm w then Inl (RuntimeError ''Right arm is not initialised/connected.'')
            else Inr Right)
      else Inl (ValueError ''name must start with left__ or right__''))"

text \<open>
  \<^verbatim>\<open>_maybe_reset_from_safe_pose_and_move_to_0\<close>, given the parsed safe tracks: without
  any it answers \<^verbatim>\<open>ok=False\<close>; otherwise it reads the current pose, logs the nearest
  safe point and answers \<^verbatim>\<open>ok=True\<close> (the hard-fail branch is commented out).
\<close>

definition maybe_reset_from_safe_pose_and_move_to_0 ::
  "side \<Rightarrow> int list list list \<Rightarrow> world \<Rightarrow> (PiperResponse \<times> world) option" where
  "maybe_reset_from_safe_pose_and_move_to_0 arm z_tracks w =
     (if z_tracks = []
      then Some (\<lparr>resp_ok = False, resp_error = Some ''no 0 tracks'', resp_note = None\<rparr>, w)
      else (case current_point arm w of
              None \<Rightarrow> None
            | Some (cur, w1) \<Rightarrow> Some (\<lparr>resp_ok = True, resp_error = None, resp_note = None\<rparr>, w1)))"

text \<open>
  The wait between two tracks: \<^verbatim>\<open>for _ in range(DELAY_BETWEEN_TRACKS * 10)\<close>, leaving
  as soon as the stop event is set.
\<close>

fun delay_loop :: "nat \<Rightarrow> world \<Rightarrow> world" where
  "delay_loop 0 w = w"
| "delay_loop (Suc n) w =
     (case play_stop_is_set w of (stop, w1) \<Rightarrow> if stop then w1 else delay_loop n w1)"

text \<open>
  The loop \<^verbatim>\<open>for i, full_name in enumerate(tracks)\<close> of \<^verbatim>\<open>cmd_play\<close>. \<open>load\<close> is
  the track store as \<^verbatim>\<open>self._load\<close> sees it: the list of track points of a name, or
  the exception raised.
\<close>

fun play_loop ::
  "(string \<Rightarrow> error + (float64, int list, 'd) TrackPoint list) \<Rightarrow> string list \<Rightarrow> world \<Rightarrow>
   unit outcome option" where
  "play_loop load [] w = Some (Returned () w)"
| "play_loop load (full_name # rest) w =
     (case play_stop_is_set w of (stop, w1) \<Rightarrow>
        if stop then Some (Returned () w1)
        else (case load full_name of
                Inl e \<Rightarrow> Some (Raised e w1)
              | Inr data \<Rightarrow>
                  (case arm_from_name full_name w1 of
                     Inl e \<Rightarrow> Some (Raised e w1)
                   | Inr arm \<Rightarrow>
                       (case run_track arm data w1 of
                          None \<Rightarrow> None
                        | Some (Raised e w2) \<Rightarrow> Some (Raised e w2)
                        | Some (Returned u w2) \<Rightarrow>
                            (case play_stop_is_set w2 of (stop2, w3) \<Rightarrow>
                               if stop2 then Some (Returned () w3)
                               else if rest \<noteq> []
                               then (case play_stop_is_set (delay_loop 30 w3) of (stop3, w4) \<Rightarrow>
                                       if stop3 then Some (Returned () w4)
                                       else play_loop load rest w4)
                               else play_loop load rest w3)))))"

text \<open>
  \<^verbatim>\<open>cmd_play(*tracks)\<close>. When the current pose is not close to the first point of the
  first track, the method evaluates \<^verbatim>\<open>self._safe_move_smooth\<close>; no class of the
  program defines an attribute of that name (\<^verbatim>\<open>PiperTerminal\<close> has no base class and
  no \<^verbatim>\<open>__getattr__\<close>), so the attribute lookup raises \<^verbatim>\<open>AttributeError\<close>.
\<close>

definition cmd_play ::
  "(string \<Rightarrow> error + (float64, int list, 'd) TrackPoint list) \<Rightarrow> int list list list \<Rightarrow>
   string list \<Rightarrow> world \<Rightarrow> unit outcome option" where
  "cmd_play load z_tracks tracks w =
     (case tracks of
        [] \<Rightarrow> Some (Returned () w)
      | first # others \<Rightarrow>
          (case arm_from_name first w of
             Inl e \<Rightarrow> Some (Raised e w)
           | Inr arm0 \<Rightarrow>
               (case maybe_reset_from_safe_pose_and_move_to_0 arm0 z_tracks w of
                  None \<Rightarrow> None
                | Some (result, w1) \<Rightarrow>
                    if \<not> resp_ok result then Some (Returned () w1)
                    else (case load first of
                            Inl e \<Rightarrow> Some (Raised e w1)
                          | Inr [] \<Rightarrow> Some (Raised IndexError w1)
                          | Inr (tp0 # tps) \<Rightarrow>
                              (case current_point arm0 w1 of
                                 None \<Rightarrow> None
                               | Some (cur, w2) \<Rightarrow>
                                   if \<not> is_close_ignored cur (coordinates tp0) TOLERANCE_ANGLE_UNITS
                                   then Some (Raised (AttributeError ''_safe_move_smooth'') w2)
                                   else play_loop load tracks w2)))))"

section \<open>Notions used to state the properties\<close>

text \<open>The world a call ends in, whether it returns or raises, and the exception raised.\<close>

definition outcome_world :: "'a outcome option \<Rightarrow> world option" where
  "outcome_world r =
     (case r of None \<Rightarrow> None | Some (Raised e w) \<Rightarrow> Some w | Some (Returned x w) \<Rightarrow> Some w)"

definition outcome_error :: "'a outcome option \<Rightarrow> error option" where
  "outcome_error r =
     (case r of None \<Rightarrow> None | Some (Raised e w) \<Rightarrow> Some e | Some (Returned x w) \<Rightarrow> None)"


text \<open>
  The pose commands among the SDK calls, and the two calls that a sent point must have
  produced: the six joints unchanged and the gripper value tightened.
\<close>

fun is_pose_cmd :: "side \<times> command \<Rightarrow> bool" where
  "is_pose_cmd (arm, JointCtrl js) = True"
| "is_pose_cmd (arm, GripperCtrl g effort mode z) = True"
| "is_pose_cmd (arm, c) = False"

fun send_cmds :: "side \<times> int list \<Rightarrow> (side \<times> command) list" where
  "send_cmds (arm, pt) =
     (case tighten (pt ! 6) of
        Inr g \<Rightarrow> [(arm, JointCtrl (take 6 pt)), (arm, GripperCtrl g GRIPPER_EFFORT 1 0)]
      | Inl e \<Rightarrow> [])"

text \<open>
  All pose commands issued so far are, in order, exactly those of the points sent so far.
\<close>

definition tightened :: "world \<Rightarrow> bool" where
  "tightened w = (filter is_pose_cmd (cmds w) = concat (map send_cmds (sent_points w)))"

text \<open>
  A computed point that \<^verbatim>\<open>_send_point\<close> can send: the computation did not raise, the
  point has a gripper entry, and tightening it does not raise. \<open>the_point\<close> extracts
  the point.
\<close>

definition sendable :: "error + int list \<Rightarrow> bool" where
  "sendable r =
     (case r of
        Inl e \<Rightarrow> False
      | Inr pt \<Rightarrow> 6 < length pt \<and> (case tighten (pt ! 6) of Inl e \<Rightarrow> False | Inr g \<Rightarrow> True))"

definition the_point :: "error + int list \<Rightarrow> int list" where
  "the_point r = (case r of Inl e \<Rightarrow> [] | Inr pt \<Rightarrow> pt)"

text \<open>
  An environment without pause and stop requests, and two worlds that differ only in the
  observation count and in what has been issued.
\<close>

definition quiet :: "world \<Rightarrow> bool" where
  "quiet w = ((\<forall>k. \<not> pause_file w k) \<and> (\<forall>k. \<not> stop_flag w k))"

definition same_env :: "world \<Rightarrow> world \<Rightarrow> bool" where
  "same_env w w' =
     (left_arm w' = left_arm w \<and> right_arm w' = right_arm w \<and> feedback w' = feedback w
      \<and> pause_file w' = pause_file w \<and> stop_flag w' = stop_flag w
      \<and> perf_clock w' = perf_clock w \<and> wall_clock w' = wall_clock w
      \<and> warnings w' = warnings w)"

text \<open>
  The world \<open>w'\<close> differs from \<open>w\<close> by having sent the points \<open>sent\<close> and nothing
  else.
\<close>

definition sent_more :: "world \<Rightarrow> world \<Rightarrow> (side \<times> int list) list \<Rightarrow> bool" where
  "sent_more w w' sent =
     (same_env w w' \<and> cmds w' = cmds w @ concat (map send_cmds sent)
      \<and> sent_points w' = sent_points w @ sent)"

text \<open>
  A quiet environment: both arms connected and reporting the given pose at every poll, no
  pause, no stop request, clocks advancing by 5 ms per observation, nothing issued yet.
\<close>

definition quiet_world :: "int list \<Rightarrow> world" where
  "quiet_world pose =
     \<lparr>left_arm = True, right_arm = True,
      feedback = (\<lambda>arm k. pose),
      pause_file = (\<lambda>k. False), stop_flag = (\<lambda>k. False),
      perf_clock = (\<lambda>k. round_ratio (int k) 200),
      wall_clock = (\<lambda>k. round_ratio (int k) 200),
      tick = 0, cmds = [], warnings = [], sent_points = []\<rparr>"

text \<open>Example tracks.\<close>

definition grab_track :: timed_track where
  "grab_track =
     \<lparr>track_name = ''right__grab'',
      points = [[0, 0, 0, 0, 0, 0, 0], [0, 0, 0, 0, 0, 0, 29]],
      durations = [Finite 0 0, float_lit 5 10]\<rparr>"


definition one_point_track :: timed_track where
  "one_point_track =
     \<lparr>track_name = ''left__reach'',
      points = [[101000, 0, 0, 0, 0, 0, 0]],
      durations = [Finite 0 0]\<rparr>"

definition empty_track :: timed_track where
  "empty_track = \<lparr>track_name = ''left__none'', points = [], durations = []\<rparr>"

definition wave_point :: "(float64, int list, unit) TrackPoint" where
  "wave_point =
     \<lparr>coordinates_timestamp = Finite 0 0, coordinates = [0, 0, 0, 0, 0, 0, 40000],
      details_timestamp = Finite 0 0, motor_speed_rpm = (), motor_current_ma = (),
      voltage_mv = (), motor_pos_deg001 = (), motor_effort_mNm = (), foc_temp_c = (),
      motor_temp_c = (), bus_current_ma = ()\<rparr>"

definition wave_store :: "string \<Rightarrow> error + (float64, int list, unit) TrackPoint list" where
  "wave_store name = (if name = ''left__wave'' then Inr [wave_point] else Inl FileNotFoundError)"

section \<open>Inter-process command channel (arm\_ipc.py)\<close>

text \<open>
  The messages a worker receives: \<^verbatim>\<open>{"cmd": "call", "method", "args", "kwargs", "id"}\<close>,
  \<^verbatim>\<open>{"cmd": "shutdown"}\<close>, or a dict with any other \<^verbatim>\<open>cmd\<close>. The positional
  and keyword arguments of a call are one value of type \<open>'a\<close>.
\<close>

datatype ('a, 'i) message = Call string 'a 'i | Shutdown | Unknown_cmd

text \<open>
  A reply dict, read by the proxy through \<^verbatim>\<open>resp.get\<close>: the truth value of
  \<^verbatim>\<open>ok\<close>, the \<^verbatim>\<open>result\<close>, \<^verbatim>\<open>error\<close> and \<^verbatim>\<open>trace\<close> entries
  (\<open>None\<close> when absent) and the \<^verbatim>\<open>id\<close>.
\<close>

record ('v, 'i) reply =
  r_ok :: bool
  r_result :: "'v option"
  r_error :: "string option"
  r_trace :: "string option"
  r_id :: 'i

text \<open>
  The worker's loop \<^verbatim>\<open>while True\<close> in \<^verbatim>\<open>_ArmWorkerProcess.run\<close>, over the messages
  that arrive before the parent closes the pipe (\<^verbatim>\<open>EOFError\<close> ends the loop); the
  result is the sequence of replies sent. The terminal is \<open>None\<close> when its construction
  failed. \<open>exec s meth args\<close> stands for
  \<^verbatim>\<open>getattr(term, method_name)(*args, **kwargs)\<close> followed by the sending of the
  result, in terminal state \<open>s\<close>: it yields the new state and either the result
  (\<open>Inr\<close>) or the \<^verbatim>\<open>repr\<close> and traceback of the \<^verbatim>\<open>Exception\<close> raised
  (\<open>Inl\<close>), which the \<^verbatim>\<open>except Exception\<close> clause turns into an error reply.
\<close>

fun worker_run ::
  "('s \<Rightarrow> string \<Rightarrow> 'a \<Rightarrow> (string \<times> string + 'v) \<times> 's) \<Rightarrow> 's option \<Rightarrow>
   ('a, 'i) message list \<Rightarrow> ('v, 'i) reply list" where
  "worker_run exec term [] = []"
| "worker_run exec term (Shutdown # msgs) = []"
| "worker_run exec term (Unknown_cmd # msgs) = worker_run exec term msgs"
| "worker_run exec None (Call meth args call_id # msgs) =
     \<lparr>r_ok = False, r_result = None, r_error = Some ''terminal init failed'', r_trace = None,
      r_id = call_id\<rparr> # worker_run exec None msgs"
| "worker_run exec (Some s) (Call meth args call_id # msgs) =
     (case exec s meth args of
        (Inr result, s') \<Rightarrow>
          \<lparr>r_ok = True, r_result = Some result, r_error = None, r_trace = None, r_id = call_id\<rparr>
            # worker_run exec (Some s') msgs
      | (Inl (exc, tb), s') \<Rightarrow>
          \<lparr>r_ok = False, r_result = None, r_error = Some exc, r_trace = Some tb, r_id = call_id\<rparr>
            # worker_run exec (Some s') msgs)"

text \<open>\<^verbatim>\<open>ArmProxy\<close>: the only state of the channel on the caller's side is \<^verbatim>\<open>_req_id\<close>.\<close>

record proxy =
  req_id :: nat

definition ArmProxy_init :: proxy where
  "ArmProxy_init = \<lparr>req_id = 0\<rparr>"

text \<open>
  \<^verbatim>\<open>ArmProxy._send_call\<close>. \<open>incoming\<close> is what \<^verbatim>\<open>self._conn.recv()\<close> delivers:
  \<open>None\<close> when no reply ever arrives, in which case the call does not return (there is
  no timeout). The result is the proxy after the call, the message sent, and the outcome:
  the value returned or the \<^verbatim>\<open>RuntimeError\<close> raised.
\<close>

definition send_call ::
  "proxy \<Rightarrow> string \<Rightarrow> 'a \<Rightarrow> ('v, nat) reply option \<Rightarrow>
   proxy \<times> ('a, nat) message \<times> (error + 'v option) option" where
  "send_call p meth args incoming =
     (let curr_id = req_id p + 1
      in (p\<lparr>req_id := curr_id\<rparr>,
          Call meth args curr_id,
          (case incoming of
             None \<Rightarrow> None
           | Some resp \<Rightarrow>
               Some (if r_id resp \<noteq> curr_id then Inl (RuntimeError ''out-of-order IPC reply'')
                     else if r_ok resp then Inr (r_result resp)
                     else Inl (RuntimeError ''Worker error'')))))"

text \<open>
  A caller that issues a sequence of calls through one proxy to a live worker: each call
  is sent, the worker serves it, and its reply is what the proxy receives. The result is
  the list of the calls' outcomes.
\<close>

fun call_sequence ::
  "('s \<Rightarrow> string \<Rightarrow> 'a \<Rightarrow> (string \<times> string + 'v) \<times> 's) \<Rightarrow> proxy \<Rightarrow> 's option \<Rightarrow>
   (string \<times> 'a) list \<Rightarrow> (error + 'v option) option list" where
  "call_sequence exec p term [] = []"
| "call_sequence exec p term ((meth, args) # calls) =
     (let curr_id = req_id p + 1;
          replies = worker_run exec term [Call meth args curr_id];
          incoming = (case replies of [] \<Rightarrow> None | r # rs \<Rightarrow> Some r);
          term' = (case term of
                     None \<Rightarrow> None
                   | Some s \<Rightarrow> Some (snd (exec s meth args)))
      in (case send_call p meth args incoming of
            (p', msg, outcome) \<Rightarrow> outcome # call_sequence exec p' term' calls))"

text \<open>An example terminal: the method \<^verbatim>\<open>boom\<close> raises, every other method counts calls.\<close>

definition counting_exec :: "nat \<Rightarrow> string \<Rightarrow> unit \<Rightarrow> (string \<times> string + nat) \<times> nat" where
  "counting_exec s meth args =
     (if meth = ''boom'' then (Inl (''ValueError()'', ''Traceback''), s) else (Inr s, Suc s))"

section \<open>Track-name canonicalisation (terminal\_v3.py)\<close>

text \<open>
  \<^verbatim>\<open>PiperTerminalV3._canon_name\<close>: the chain of \<^verbatim>\<open>if\<close> statements in
  source order; \<^verbatim>\<open>name[k:]\<close> is \<open>drop k name\<close>.
\<close>

definition canon_name :: "string \<Rightarrow> string" where
  "canon_name name =
     (if startswith name ''l_'' then ''left__'' @ drop 2 name
      else if startswith name ''left_'' then ''left__'' @ drop 5 name
      else if startswith name ''r_'' then ''right__'' @ drop 2 name
      else if startswith name ''right_'' \<and> \<not> startswith name ''right__''
        then ''right__'' @ drop 6 name
      else if startswith name ''scene_'' \<and> \<not> startswith name ''scene__''
        then ''scene__'' @ drop 6 name
      else name)"

section \<open>Results\<close>

subsection \<open>Maximum deviation with ignored joints\<close>

lemma max_delta_loop_char:
  "max_delta_loop idx ds (m, w) = (m', w') \<Longrightarrow>
     m \<le> m' \<and> (\<forall>i<length ds. idx + i \<notin> set IGNORED_JOINTS \<longrightarrow> ds ! i \<le> m') \<and>
     ((m' = m \<and> w' = w) \<or>
      (\<exists>i<length ds. idx + i \<notin> set IGNORED_JOINTS \<and> w' = Some (idx + i) \<and> ds ! i = m' \<and> m < m'
          \<and> (\<forall>j<i. idx + j \<notin> set IGNORED_JOINTS \<longrightarrow> ds ! j < m')))"
proof (induction ds arbitrary: idx m w)
  case Nil
  then show ?case by simp
next
  case (Cons d ds)
  show ?case
  proof (cases "idx \<in> set IGNORED_JOINTS")
    case True
    with Cons.prems have "max_delta_loop (Suc idx) ds (m, w) = (m', w')" by simp
    from Cons.IH[OF this] True show ?thesis
      by (simp add: All_less_Suc2 Ex_less_Suc2)
  next
    case False
    show ?thesis
    proof (cases "d > m")
      case True
      with False Cons.prems have "max_delta_loop (Suc idx) ds (d, Some idx) = (m', w')"
        by (simp add: elided_max_update_def)
      from Cons.IH[OF this] False True show ?thesis
        by (auto simp add: All_less_Suc2 Ex_less_Suc2)
    next
      case nle: False
      with False Cons.prems have "max_delta_loop (Suc idx) ds (m, w) = (m', w')" by simp
      from Cons.IH[OF this] False nle show ?thesis
        by (auto simp add: All_less_Suc2 Ex_less_Suc2)
    qed
  qed
qed

lemma abs_diffs_nth:
  "i < length pt_a \<Longrightarrow> i < length pt_b \<Longrightarrow> abs_diffs pt_a pt_b ! i = \<bar>pt_a ! i - pt_b ! i\<bar>"
  by (simp add: abs_diffs_def)

lemma abs_diffs_length: "length (abs_diffs pt_a pt_b) = min (length pt_a) (length pt_b)"
  by (simp add: abs_diffs_def)

text \<open>
  C2. For two 7-element poses, \<^verbatim>\<open>_max_delta_and_joint_ignored\<close> returns the absolute
  difference at some joint index \<open>j\<close> outside the ignore set together with \<open>j\<close> itself;
  that difference is the maximum of the absolute differences over all joint indices outside
  the ignore set, every earlier such index has a strictly smaller difference (the first
  index achieving the maximum is reported), and for identical poses the result is
  deviation 0 (at joint 0).
\<close>

theorem max_delta_ignored_is_first_maximum:
  assumes "length pt_a = 7" and "length pt_b = 7"
  shows "\<exists>j. j < 7 \<and> j \<notin> set IGNORED_JOINTS
      \<and> max_delta_and_joint_ignored pt_a pt_b = (\<bar>pt_a ! j - pt_b ! j\<bar>, int j)
      \<and> \<bar>pt_a ! j - pt_b ! j\<bar>
          = Max ((\<lambda>i. \<bar>pt_a ! i - pt_b ! i\<bar>) ` {i. i < 7 \<and> i \<notin> set IGNORED_JOINTS})
      \<and> (\<forall>i<j. i \<notin> set IGNORED_JOINTS \<longrightarrow> \<bar>pt_a ! i - pt_b ! i\<bar> < \<bar>pt_a ! j - pt_b ! j\<bar>)
      \<and> (pt_a = pt_b \<longrightarrow> max_delta_and_joint_ignored pt_a pt_b = (0, 0))"
proof -
  let ?ds = "abs_diffs pt_a pt_b"
  let ?D = "\<lambda>i. \<bar>pt_a ! i - pt_b ! i\<bar>"
  have len: "length ?ds = 7" using assms by (simp add: abs_diffs_length)
  have nth: "\<And>i. i < 7 \<Longrightarrow> ?ds ! i = ?D i" using assms by (simp add: abs_diffs_nth)
  obtain m' w' where r: "max_delta_loop 0 ?ds (- 1, None) = (m', w')"
    by (cases "max_delta_loop 0 ?ds (- 1, None)")
  note c = max_delta_loop_char[OF r, simplified len]
  have zero_considered: "(0::nat) \<notin> set IGNORED_JOINTS" by (simp add: IGNORED_JOINTS_def)
  have "?ds ! 0 \<le> m'" using c zero_considered by auto
  moreover have "0 \<le> ?ds ! 0" using nth[of 0] by simp
  ultimately have "m' \<noteq> - 1" by arith
  with c obtain j where j: "j < 7" "j \<notin> set IGNORED_JOINTS" "w' = Some j" "?ds ! j = m'"
      "\<forall>k<j. k \<notin> set IGNORED_JOINTS \<longrightarrow> ?ds ! k < m'"
    by auto
  have ub: "\<forall>i<7. i \<notin> set IGNORED_JOINTS \<longrightarrow> ?D i \<le> ?D j"
    using c j nth by auto
  have res: "max_delta_and_joint_ignored pt_a pt_b = (?D j, int j)"
    using r j nth[of j] by (simp add: max_delta_and_joint_ignored_def)
  have mx: "?D j = Max (?D ` {i. i < 7 \<and> i \<notin> set IGNORED_JOINTS})"
  proof (rule Max_eqI[symmetric])
    show "finite (?D ` {i. i < 7 \<and> i \<notin> set IGNORED_JOINTS})" by simp
    show "\<And>y. y \<in> ?D ` {i. i < 7 \<and> i \<notin> set IGNORED_JOINTS} \<Longrightarrow> y \<le> ?D j" using ub by auto
    show "?D j \<in> ?D ` {i. i < 7 \<and> i \<notin> set IGNORED_JOINTS}" using j by auto
  qed
  have first: "\<forall>i<j. i \<notin> set IGNORED_JOINTS \<longrightarrow> ?D i < ?D j"
  proof (intro allI impI)
    fix i assume "i < j" "i \<notin> set IGNORED_JOINTS"
    then have "?ds ! i < m'" using j by blast
    moreover have "i < 7" using \<open>i < j\<close> j(1) by simp
    ultimately show "?D i < ?D j" using nth[of i] nth[of j] j by simp
  qed
  have same: "pt_a = pt_b \<longrightarrow> max_delta_and_joint_ignored pt_a pt_b = (0, 0)"
  proof
    assume e: "pt_a = pt_b"
    have "j = 0"
    proof (rule ccontr)
      assume "j \<noteq> 0"
      then have "?D 0 < ?D j" using first zero_considered by auto
      then show False using e by simp
    qed
    then show "max_delta_and_joint_ignored pt_a pt_b = (0, 0)" using res e by simp
  qed
  show ?thesis using j(1,2) res mx first same by blast
qed

theorem max_delta_ignored_is_first_maximum_witness:
  "length [1000, 0, 0, 0, 0, 0, 0 :: int] = 7 \<and> length [0, 0, 0, 0, 0, 0, 0 :: int] = 7
   \<and> (\<exists>j. j < 7 \<and> j \<notin> set IGNORED_JOINTS
        \<and> max_delta_and_joint_ignored [1000, 0, 0, 0, 0, 0, 0] [0, 0, 0, 0, 0, 0, 0]
            = (\<bar>[1000, 0, 0, 0, 0, 0, 0] ! j - [0, 0, 0, 0, 0, 0, 0] ! j\<bar>, int j))
   \<and> max_delta_and_joint_ignored [1000, 0, 0, 0, 0, 0, 0] [0, 0, 0, 0, 0, 0, 0] = (1000, 0)
   \<and> is_close_ignored [1000, 0, 0, 0, 0, 0, 0] [0, 0, 0, 0, 0, 0, 0] TOLERANCE_ANGLE_UNITS"
proof -
  have a: "length [1000, 0, 0, 0, 0, 0, 0 :: int] = 7"
    and b: "length [0, 0, 0, 0, 0, 0, 0 :: int] = 7"
    by simp_all
  have e: "\<exists>j. j < 7 \<and> j \<notin> set IGNORED_JOINTS
        \<and> max_delta_and_joint_ignored [1000, 0, 0, 0, 0, 0, 0] [0, 0, 0, 0, 0, 0, 0]
            = (\<bar>[1000, 0, 0, 0, 0, 0, 0] ! j - [0, 0, 0, 0, 0, 0, 0] ! j\<bar>, int j)"
    using max_delta_ignored_is_first_maximum[OF a b] by blast
  have r: "max_delta_and_joint_ignored [1000, 0, 0, 0, 0, 0, 0] [0, 0, 0, 0, 0, 0, 0] = (1000, 0)"
    by (simp add: max_delta_and_joint_ignored_def abs_diffs_def IGNORED_JOINTS_def
        elided_max_update_def)
  have c: "is_close_ignored [1000, 0, 0, 0, 0, 0, 0] [0, 0, 0, 0, 0, 0, 0] TOLERANCE_ANGLE_UNITS"
    by (simp add: is_close_ignored_def r TOLERANCE_ANGLE_UNITS_def)
  show ?thesis using a b e r c by blast
qed

subsection \<open>Track format layer\<close>

lemma wave_paths_distinct [simp]:
  "track_path ''left__wave'' \<noteq> details_path ''left__wave''"
  "details_path ''left__wave'' \<noteq> track_path ''left__wave''"
  by (simp_all add: details_path_def track_path_def)

text \<open>
  A mapping tagged \<^verbatim>\<open>"v9.9"\<close> is loaded as the legacy variant, without an error.
\<close>

theorem read_track_unknown_version_counterexample:
  "read_track unknown_version_fs ''left__wave'' = Inr (TrackV1 ''left__wave'' unknown_version_doc)"
  by (simp add: read_track_def unknown_version_fs_def unknown_version_doc_def TrackV1_init_def
      load_json_def)

text \<open>
  C5 (as amended). \<^verbatim>\<open>read_track\<close> on a stored mapping whose version field is present
  but is neither \<^verbatim>\<open>"v3.0"\<close> nor \<^verbatim>\<open>"v2.0"\<close> raises nothing: it takes the legacy
  fallback and returns a \<^verbatim>\<open>TrackV1\<close> instance holding the mapping as its data. The
  error comes one step later: with no details file, accessing \<^verbatim>\<open>track_points\<close> of that
  instance raises the length-mismatch \<^verbatim>\<open>ValueError\<close>.
\<close>

theorem read_track_unknown_version_falls_back:
  assumes "fs (track_path name) = Some (Doc (JDict kvs))"
    and "map_of kvs ''version'' = Some v"
    and "v \<noteq> JStr ''v3.0''" and "v \<noteq> JStr ''v2.0''"
  shows "read_track fs name = Inr (TrackV1 name (JDict kvs))
    \<and> (fs (details_path name) = None \<longrightarrow>
         v1_track_points fs name (JDict kvs)
           = Inl (ValueError ''Details length must match points length for v1 track''))"
proof -
  have "kvs \<noteq> []" using assms(2) by auto
  then have "length kvs \<noteq> 0" by simp
  then show ?thesis using assms
    by (auto simp add: read_track_def TrackV1_init_def load_json_def v1_track_points_def details_def)
qed

theorem read_track_unknown_version_falls_back_witness:
  "unknown_version_fs (track_path ''left__wave'') = Some (Doc unknown_version_doc)
   \<and> read_track unknown_version_fs ''left__wave'' = Inr (TrackV1 ''left__wave'' unknown_version_doc)
   \<and> v1_track_points unknown_version_fs ''left__wave'' unknown_version_doc
       = Inl (ValueError ''Details length must match points length for v1 track'')"
proof -
  have a: "unknown_version_fs (track_path ''left__wave'')
      = Some (Doc (JDict [(''version'', JStr ''v9.9''), (''points'', JList [])]))"
    by (simp add: unknown_version_fs_def unknown_version_doc_def)
  have b: "map_of [(''version'', JStr ''v9.9''), (''points'', JList [])] ''version'' = Some (JStr ''v9.9'')"
    by simp
  have c: "JStr ''v9.9'' \<noteq> JStr ''v3.0''" and d: "JStr ''v9.9'' \<noteq> JStr ''v2.0''" by simp_all
  have e: "unknown_version_fs (details_path ''left__wave'') = None"
    by (simp add: unknown_version_fs_def)
  show ?thesis
    using read_track_unknown_version_falls_back
          [of unknown_version_fs "''left__wave''" "[(''version'', JStr ''v9.9''), (''points'', JList [])]"
              "JStr ''v9.9''", OF a b c d] a e
    by (simp add: unknown_version_doc_def)
qed


lemma v1_track_point_complete:
  assumes "complete_details det"
  shows "\<exists>tp. v1_track_point pt det = Inr tp \<and> coordinates tp = pt"
proof -
  obtain kvs where d: "det = JDict kvs" using assms
    by (cases det) (simp_all add: complete_details_def)
  have k: "list_all (\<lambda>k. map_of kvs k \<noteq> None) details_keys"
    using assms d by (simp add: complete_details_def)
  then obtain v0 v1 v2 v3 v4 v5 v6 v7 v8 where v:
    "map_of kvs ''ts'' = Some v0" "map_of kvs ''motor_speed_rpm'' = Some v1"
    "map_of kvs ''motor_current_ma'' = Some v2" "map_of kvs ''voltage_mv'' = Some v3"
    "map_of kvs ''motor_pos_deg001'' = Some v4" "map_of kvs ''motor_effort_mNm'' = Some v5"
    "map_of kvs ''foc_temp_c'' = Some v6" "map_of kvs ''motor_temp_c'' = Some v7"
    "map_of kvs ''bus_current_ma'' = Some v8"
    by (auto simp add: details_keys_def)
  show ?thesis unfolding d v1_track_point_def by (simp add: v)
qed

lemma complete_details_has_ts: "complete_details det \<Longrightarrow> py_in ''ts'' det = Inr True"
  by (cases det) (auto simp add: complete_details_def details_keys_def)

lemma v1_combine_complete:
  "idx + length pts \<le> length ds \<Longrightarrow>
   (\<forall>i. idx \<le> i \<and> i < idx + length pts \<longrightarrow> complete_details (ds ! i)) \<Longrightarrow>
   \<exists>tps. v1_combine (JList ds) idx pts = Inr tps \<and> map coordinates tps = pts"
proof (induction pts arbitrary: idx)
  case Nil
  then show ?case by simp
next
  case (Cons pt pts)
  have c: "complete_details (ds ! idx)" using Cons.prems by simp
  from v1_track_point_complete[OF c] obtain tp where
    tp: "v1_track_point pt (ds ! idx) = Inr tp" "coordinates tp = pt" by blast
  have "Suc idx + length pts \<le> length ds" using Cons.prems by simp
  moreover have "\<forall>i. Suc idx \<le> i \<and> i < Suc idx + length pts \<longrightarrow> complete_details (ds ! i)"
    using Cons.prems by simp
  ultimately obtain tps where
    tps: "v1_combine (JList ds) (Suc idx) pts = Inr tps" "map coordinates tps = pts"
    using Cons.IH by blast
  have "idx < length ds" using Cons.prems by simp
  then show ?case using tp tps complete_details_has_ts[OF c] by simp
qed

text \<open>
  An empty legacy track without a details file loads (as the empty list), and a track
  whose details list has the matching length but entries without \<^verbatim>\<open>ts\<close> does not.
\<close>

theorem v1_track_points_counterexample:
  "v1_track_points empty_track_fs ''left__wave'' (JList []) = Inr []
   \<and> empty_track_fs (details_path ''left__wave'') = None
   \<and> v1_track_points (wave_fs [JDict [], JDict [], JDict []]) ''left__wave''
        (JList [wave_pose, wave_pose, wave_pose])
       = Inl (ValueError ''Missing ts in details for v1 track'')"
proof -
  have d0: "details empty_track_fs ''left__wave'' = JList []"
    by (simp add: details_def empty_track_fs_def)
  have a: "v1_track_points empty_track_fs ''left__wave'' (JList []) = Inr []"
    by (simp add: v1_track_points_def d0)
  have b: "empty_track_fs (details_path ''left__wave'') = None"
    by (simp add: empty_track_fs_def)
  have d3: "details (wave_fs [JDict [], JDict [], JDict []]) ''left__wave''
      = JList [JDict [], JDict [], JDict []]"
    by (simp add: details_def wave_fs_def)
  have c: "v1_track_points (wave_fs [JDict [], JDict [], JDict []]) ''left__wave''
        (JList [wave_pose, wave_pose, wave_pose])
       = Inl (ValueError ''Missing ts in details for v1 track'')"
    by (simp add: v1_track_points_def d3)
  show ?thesis using a b c by (intro conjI)
qed

lemma details_absent:
  "fs (details_path name) = None \<or> fs (details_path name) = Some Unparsable \<Longrightarrow>
   details fs name = JList []"
  by (auto simp add: details_def)

lemma v1_combine_missing_ts:
  "idx + length pts \<le> length ds \<Longrightarrow> j < length pts \<Longrightarrow>
   (\<forall>i. idx \<le> i \<and> i < idx + j \<longrightarrow> complete_details (ds ! i)) \<Longrightarrow>
   is_dict (ds ! (idx + j)) \<Longrightarrow> dict_get (ds ! (idx + j)) ''ts'' = None \<Longrightarrow>
   v1_combine (JList ds) idx pts = Inl (ValueError ''Missing ts in details for v1 track'')"
proof (induction pts arbitrary: idx j)
  case Nil
  then show ?case by simp
next
  case (Cons pt pts)
  have lt: "idx < length ds" using Cons.prems(1) by simp
  show ?case
  proof (cases j)
    case 0
    with Cons.prems(4,5) obtain kvs where k: "ds ! idx = JDict kvs" "map_of kvs ''ts'' = None"
      by (cases "ds ! idx") simp_all
    then show ?thesis using lt by simp
  next
    case (Suc j')
    have c: "complete_details (ds ! idx)" using Cons.prems(3) Suc by simp
    from v1_track_point_complete[OF c] obtain tp where
      tp: "v1_track_point pt (ds ! idx) = Inr tp" by blast
    have a1: "Suc idx + length pts \<le> length ds" using Cons.prems(1) by simp
    have a2: "j' < length pts" using Cons.prems(2) Suc by simp
    have a3: "\<forall>i. Suc idx \<le> i \<and> i < Suc idx + j' \<longrightarrow> complete_details (ds ! i)"
      using Cons.prems(3) Suc by simp
    have a4: "is_dict (ds ! (Suc idx + j'))" using Cons.prems(4) Suc by simp
    have a5: "dict_get (ds ! (Suc idx + j')) ''ts'' = None" using Cons.prems(5) Suc by simp
    from Cons.IH[OF a1 a2 a3 a4 a5] lt tp complete_details_has_ts[OF c]
    show ?thesis by simp
  qed
qed

text \<open>
  C6 (as amended). For a legacy track holding a list of poses: a details file that is
  missing or cannot be parsed counts as an empty details list, so accessing
  \<^verbatim>\<open>track_points\<close> raises the length-mismatch \<^verbatim>\<open>ValueError\<close> when the track has
  at least one pose and returns the empty list when it has none; a details list of any
  different length raises the same error; with matching lengths, when every details entry
  is a dict with the timestamp and the eight telemetry keys, the result has one
  \<^verbatim>\<open>TrackPoint\<close> per pose, carrying the poses in order; and when the first entry that
  is not such a dict is a dict without the key \<^verbatim>\<open>ts\<close>, the access raises the
  missing-timestamp \<^verbatim>\<open>ValueError\<close>.
\<close>

theorem v1_track_points_length_check:
  "((fs (details_path name) = None \<or> fs (details_path name) = Some Unparsable) \<and> poses \<noteq> [] \<longrightarrow>
      v1_track_points fs name (JList poses)
        = Inl (ValueError ''Details length must match points length for v1 track''))
   \<and> ((fs (details_path name) = None \<or> fs (details_path name) = Some Unparsable) \<and> poses = [] \<longrightarrow>
      v1_track_points fs name (JList poses) = Inr [])
   \<and> (fs (details_path name) = Some (Doc (JList ds)) \<and> length ds \<noteq> length poses \<longrightarrow>
      v1_track_points fs name (JList poses)
        = Inl (ValueError ''Details length must match points length for v1 track''))
   \<and> (fs (details_path name) = Some (Doc (JList ds)) \<and> length ds = length poses
        \<and> list_all complete_details ds \<longrightarrow>
      (\<exists>tps. v1_track_points fs name (JList poses) = Inr tps
         \<and> length tps = length poses \<and> map coordinates tps = poses))
   \<and> (fs (details_path name) = Some (Doc (JList ds)) \<and> length ds = length poses
        \<and> j < length ds \<and> list_all complete_details (take j ds)
        \<and> is_dict (ds ! j) \<and> dict_get (ds ! j) ''ts'' = None \<longrightarrow>
      v1_track_points fs name (JList poses)
        = Inl (ValueError ''Missing ts in details for v1 track''))"
proof (intro conjI impI)
  assume "(fs (details_path name) = None \<or> fs (details_path name) = Some Unparsable) \<and> poses \<noteq> []"
  then show "v1_track_points fs name (JList poses)
        = Inl (ValueError ''Details length must match points length for v1 track'')"
    using details_absent[of fs name] by (simp add: v1_track_points_def)
next
  assume "(fs (details_path name) = None \<or> fs (details_path name) = Some Unparsable) \<and> poses = []"
  then show "v1_track_points fs name (JList poses) = Inr []"
    using details_absent[of fs name] by (simp add: v1_track_points_def)
next
  assume "fs (details_path name) = Some (Doc (JList ds)) \<and> length ds \<noteq> length poses"
  then show "v1_track_points fs name (JList poses)
        = Inl (ValueError ''Details length must match points length for v1 track'')"
    by (simp add: v1_track_points_def details_def)
next
  assume a: "fs (details_path name) = Some (Doc (JList ds)) \<and> length ds = length poses
        \<and> list_all complete_details ds"
  then have h1: "\<forall>i. 0 \<le> i \<and> i < 0 + length poses \<longrightarrow> complete_details (ds ! i)"
    by (simp add: list_all_length)
  have h2: "0 + length poses \<le> length ds" using a by simp
  from v1_combine_complete[of 0 poses ds, OF h2 h1] obtain tps where
    tps: "v1_combine (JList ds) 0 poses = Inr tps" "map coordinates tps = poses"
    by (elim exE conjE)
  have "length (map coordinates tps) = length poses" using tps(2) by simp
  then have "length tps = length poses" by simp
  then show "\<exists>tps. v1_track_points fs name (JList poses) = Inr tps
         \<and> length tps = length poses \<and> map coordinates tps = poses"
    using a tps by (simp add: v1_track_points_def details_def)
next
  assume a: "fs (details_path name) = Some (Doc (JList ds)) \<and> length ds = length poses
        \<and> j < length ds \<and> list_all complete_details (take j ds)
        \<and> is_dict (ds ! j) \<and> dict_get (ds ! j) ''ts'' = None"
  have h1: "0 + length poses \<le> length ds" using a by simp
  have h2: "j < length poses" using a by simp
  have h3: "\<forall>i. 0 \<le> i \<and> i < 0 + j \<longrightarrow> complete_details (ds ! i)"
    using a by (simp add: list_all_length)
  have h4: "is_dict (ds ! (0 + j))" and h5: "dict_get (ds ! (0 + j)) ''ts'' = None"
    using a by simp_all
  from v1_combine_missing_ts[of 0 poses ds j, OF h1 h2 h3 h4 h5]
  show "v1_track_points fs name (JList poses)
        = Inl (ValueError ''Missing ts in details for v1 track'')"
    using a by (simp add: v1_track_points_def details_def)
qed

theorem v1_track_points_length_check_witness:
  "(\<exists>tps. v1_track_points (wave_fs [wave_details, wave_details, wave_details]) ''left__wave''
             (JList [wave_pose, wave_pose, wave_pose]) = Inr tps
         \<and> length tps = length [wave_pose, wave_pose, wave_pose]
         \<and> map coordinates tps = [wave_pose, wave_pose, wave_pose])
   \<and> v1_track_points (wave_fs [wave_details, wave_details]) ''left__wave''
        (JList [wave_pose, wave_pose, wave_pose])
       = Inl (ValueError ''Details length must match points length for v1 track'')
   \<and> v1_track_points unknown_version_fs ''left__wave'' (JList [wave_pose])
       = Inl (ValueError ''Details length must match points length for v1 track'')
   \<and> v1_track_points broken_details_fs ''left__wave'' (JList [wave_pose])
       = Inl (ValueError ''Details length must match points length for v1 track'')
   \<and> v1_track_points empty_track_fs ''left__wave'' (JList []) = Inr []
   \<and> v1_track_points (wave_fs [wave_details, JDict [], wave_details]) ''left__wave''
        (JList [wave_pose, wave_pose, wave_pose])
       = Inl (ValueError ''Missing ts in details for v1 track'')"
proof -
  have c: "complete_details wave_details"
    by (simp add: complete_details_def wave_details_def details_keys_def)
  have h3: "wave_fs [wave_details, wave_details, wave_details] (details_path ''left__wave'')
        = Some (Doc (JList [wave_details, wave_details, wave_details]))
      \<and> length [wave_details, wave_details, wave_details] = length [wave_pose, wave_pose, wave_pose]
      \<and> list_all complete_details [wave_details, wave_details, wave_details]"
    using c by (simp add: wave_fs_def)
  have h2: "wave_fs [wave_details, wave_details] (details_path ''left__wave'')
        = Some (Doc (JList [wave_details, wave_details]))
      \<and> length [wave_details, wave_details] \<noteq> length [wave_pose, wave_pose, wave_pose]"
    by (simp add: wave_fs_def)
  have h0: "(unknown_version_fs (details_path ''left__wave'') = None
        \<or> unknown_version_fs (details_path ''left__wave'') = Some Unparsable) \<and> [wave_pose] \<noteq> []"
    by (simp add: unknown_version_fs_def)
  have hb: "(broken_details_fs (details_path ''left__wave'') = None
        \<or> broken_details_fs (details_path ''left__wave'') = Some Unparsable) \<and> [wave_pose] \<noteq> []"
    by (simp add: broken_details_fs_def)
  have he: "(empty_track_fs (details_path ''left__wave'') = None
        \<or> empty_track_fs (details_path ''left__wave'') = Some Unparsable) \<and> ([]::json list) = []"
    by (simp add: empty_track_fs_def)
  have hm: "wave_fs [wave_details, JDict [], wave_details] (details_path ''left__wave'')
        = Some (Doc (JList [wave_details, JDict [], wave_details]))
      \<and> length [wave_details, JDict [], wave_details] = length [wave_pose, wave_pose, wave_pose]
      \<and> 1 < length [wave_details, JDict [], wave_details]
      \<and> list_all complete_details (take 1 [wave_details, JDict [], wave_details])
      \<and> is_dict ([wave_details, JDict [], wave_details] ! 1)
      \<and> dict_get ([wave_details, JDict [], wave_details] ! 1) ''ts'' = None"
    using c by (simp add: wave_fs_def)
  have r3: "\<exists>tps. v1_track_points (wave_fs [wave_details, wave_details, wave_details]) ''left__wave''
             (JList [wave_pose, wave_pose, wave_pose]) = Inr tps
         \<and> length tps = length [wave_pose, wave_pose, wave_pose]
         \<and> map coordinates tps = [wave_pose, wave_pose, wave_pose]"
    using v1_track_points_length_check
            [of "wave_fs [wave_details, wave_details, wave_details]" "''left__wave''"
                "[wave_pose, wave_pose, wave_pose]" "[wave_details, wave_details, wave_details]"]
          h3 by blast
  have r2: "v1_track_points (wave_fs [wave_details, wave_details]) ''left__wave''
        (JList [wave_pose, wave_pose, wave_pose])
       = Inl (ValueError ''Details length must match points length for v1 track'')"
    using v1_track_points_length_check
            [of "wave_fs [wave_details, wave_details]" "''left__wave''"
                "[wave_pose, wave_pose, wave_pose]" "[wave_details, wave_details]"]
          h2 by blast
  have r0: "v1_track_points unknown_version_fs ''left__wave'' (JList [wave_pose])
       = Inl (ValueError ''Details length must match points length for v1 track'')"
    using v1_track_points_length_check
            [of unknown_version_fs "''left__wave''" "[wave_pose]"]
          h0 by blast
  have rb: "v1_track_points broken_details_fs ''left__wave'' (JList [wave_pose])
       = Inl (ValueError ''Details length must match points length for v1 track'')"
    using v1_track_points_length_check
            [of broken_details_fs "''left__wave''" "[wave_pose]"]
          hb by blast
  have re: "v1_track_points empty_track_fs ''left__wave'' (JList []) = Inr []"
    using v1_track_points_length_check
            [of empty_track_fs "''left__wave''" "[]"]
          he by blast
  have rm: "v1_track_points (wave_fs [wave_details, JDict [], wave_details]) ''left__wave''
        (JList [wave_pose, wave_pose, wave_pose])
       = Inl (ValueError ''Missing ts in details for v1 track'')"
    using v1_track_points_length_check
            [of "wave_fs [wave_details, JDict [], wave_details]" "''left__wave''"
                "[wave_pose, wave_pose, wave_pose]" "[wave_details, JDict [], wave_details]" 1]
          hm by blast
  show ?thesis using r3 r2 r0 rb re rm by (intro conjI)
qed

subsection \<open>Position accessor\<close>

lemma feedback_advance [simp]: "feedback (advance w) = feedback w"
  by (simp add: advance_def)
lemma feedback_log_warning [simp]: "feedback (log_warning m w) = feedback w"
  by (simp add: log_warning_def)

lemma current_point_loop_all_zero:
  assumes "current_point_loop arm deadline warned_at w = Some r"
  shows "\<exists>k. list_ex (\<lambda>v. v \<noteq> 0) (feedback w arm k)"
  apply (rule current_point_loop.raw_induct
    [where P = "\<lambda>arm deadline warned_at w r. \<exists>k. list_ex (\<lambda>v. v \<noteq> 0) (feedback w arm k)",
      OF _ assms])
  subgoal premises prems for loop arm deadline warned_at w r
  proof (cases "list_ex (\<lambda>v. v \<noteq> 0) (feedback w arm (tick w))")
    case True
    then show ?thesis by blast
  next
    case False
    with prems(2) obtain d' wa' w' where l: "loop arm d' wa' w' = Some r"
      and f: "feedback w' = feedback w"
      by (auto simp add: read_feedback_def perf_counter_def time_time_def
          split: if_splits prod.splits)
    from prems(1)[OF l] show ?thesis unfolding f .
  qed
  done

lemma current_point_none:
  assumes "\<forall>k. \<not> list_ex (\<lambda>v. v \<noteq> 0) (feedback w arm k)"
  shows "current_point arm w = None"
proof (cases "current_point arm w")
  case None then show ?thesis .
next
  case (Some r)
  then obtain d wa w' where "current_point_loop arm d wa w' = Some r" "feedback w' = feedback w"
    by (auto simp add: current_point_def perf_counter_def time_time_def split: prod.splits)
  from current_point_loop_all_zero[OF this(1)] this(2) assms show ?thesis by simp
qed

text \<open>
  C4. The accessor is claimed to return always, handing back the last all-zero reading
  once the 100 ms deadline has passed. In an environment whose arm reports all zeros at
  every poll, \<^verbatim>\<open>_current_point\<close> has no outcome: the loop never reaches its only
  \<^verbatim>\<open>return\<close>.
\<close>

theorem current_point_never_returns_on_zeros:
  "current_point Left dead_link_world = None"
  by (rule current_point_none) (simp add: dead_link_world_def)

subsection \<open>Every sent point is tightened: the invariant\<close>

lemma obs_tightened [simp]:
  "tightened (snd (read_feedback arm w)) = tightened w"
  "tightened (snd (external_pause_active w)) = tightened w"
  "tightened (snd (play_stop_is_set w)) = tightened w"
  "tightened (snd (perf_counter w)) = tightened w"
  "tightened (snd (time_time w)) = tightened w"
  "tightened (advance w) = tightened w"
  "tightened (log_warning m w) = tightened w"
  by (simp_all add: read_feedback_def external_pause_active_def play_stop_is_set_def
      perf_counter_def time_time_def tightened_def advance_def log_warning_def)

lemma mode_tightened [simp]:
  "tightened (sdk_call arm (ModeCtrl a b c) w) = tightened w"
  "tightened (sdk_call arm (EnableArm m) w) = tightened w"
  by (simp_all add: tightened_def sdk_call_def)

lemma prepare_tightened [simp]: "tightened (prepare_track_play arm w) = tightened w"
  by (simp add: prepare_track_play_def)

lemma coefficient_positive: "flt (Finite 0 0) GRIPPER_TIGHT_COEFFICEINT"
  by code_simp












lemma outcome_world_simps [simp]:
  "outcome_world None = None"
  "outcome_world (Some (Raised e w)) = Some w"
  "outcome_world (Some (Returned x w)) = Some w"
  by (simp_all add: outcome_world_def)












subsection \<open>Playback in a quiet environment\<close>

lemma same_env_refl [simp]: "same_env w w"
  by (simp add: same_env_def)

lemma same_env_trans: "same_env a b \<Longrightarrow> same_env b c \<Longrightarrow> same_env a c"
  by (simp add: same_env_def)

lemma same_env_quiet: "same_env w w' \<Longrightarrow> quiet w \<Longrightarrow> quiet w'"
  by (simp add: same_env_def quiet_def)

lemma same_env_advance [simp]: "same_env w (advance w)"
  by (simp add: same_env_def advance_def)

lemma sent_more_nil_advance [simp]: "sent_more w (advance w) []"
  by (simp add: sent_more_def advance_def same_env_def)

lemma sent_more_refl [simp]: "sent_more w w []"
  by (simp add: sent_more_def)

lemma sent_more_trans:
  "sent_more a b xs \<Longrightarrow> sent_more b c ys \<Longrightarrow> sent_more a c (xs @ ys)"
  by (auto simp add: sent_more_def intro: same_env_trans)

lemma sent_more_quiet: "sent_more w w' xs \<Longrightarrow> quiet w \<Longrightarrow> quiet w'"
  by (auto simp add: sent_more_def intro: same_env_quiet)

lemma quiet_stop_read: "quiet w \<Longrightarrow> play_stop_is_set w = (False, advance w)"
  by (simp add: play_stop_is_set_def quiet_def)

lemma quiet_pause_check: "quiet w \<Longrightarrow> pause_check arm False w = Some (False, advance w)"
  by (simp add: pause_check_def external_pause_active_def quiet_def)

lemma send_point_sendable:
  assumes "sendable (Inr pt)"
  shows "\<exists>w'. send_point arm pt w = Returned () w' \<and> sent_more w w' [(arm, pt)]"
proof -
  from assms obtain g where g: "6 < length pt" "tighten (pt ! 6) = Inr g"
    by (auto simp add: sendable_def split: sum.splits)
  then have e: "effective_target pt = Inr (pt[6 := g])"
    by (simp add: effective_target_def coefficient_positive)
  show ?thesis using g
    by (simp add: send_point_def e sdk_call_def Let_def sent_more_def same_env_def)
qed

lemma timed_step_loop_quiet:
  "quiet w \<Longrightarrow> list_all (\<lambda>s. sendable (timed_pt start_pt dfs s)) steps \<Longrightarrow>
   \<exists>w'. timed_step_loop arm start_pt dfs steps False w = Some (Returned False w')
      \<and> sent_more w w' (map (\<lambda>s. (arm, the_point (timed_pt start_pt dfs s))) steps)"
proof (induction steps arbitrary: w)
  case Nil
  then show ?case by simp
next
  case (Cons step rest)
  from Cons.prems(2) obtain pt where pt: "timed_pt start_pt dfs step = Inr pt" "sendable (Inr pt)"
    by (cases "timed_pt start_pt dfs step") (auto simp add: sendable_def)
  note pc = quiet_pause_check[OF Cons.prems(1), of arm]
  have q1: "quiet (advance w)" using Cons.prems(1) same_env_quiet same_env_advance by blast
  from send_point_sendable[OF pt(2), of arm "advance w"] obtain w2 where
    w2: "send_point arm pt (advance w) = Returned () w2" "sent_more (advance w) w2 [(arm, pt)]"
    by blast
  have q2: "quiet w2" using sent_more_quiet[OF w2(2) q1] .
  note sr = quiet_stop_read[OF q2]
  have q3: "quiet (advance w2)" using q2 same_env_quiet same_env_advance by blast
  from Cons.prems(2) have "list_all (\<lambda>s. sendable (timed_pt start_pt dfs s)) rest" by simp
  from Cons.IH[OF q3 this] obtain w' where
    w': "timed_step_loop arm start_pt dfs rest False (advance w2) = Some (Returned False w')"
    "sent_more (advance w2) w' (map (\<lambda>s. (arm, the_point (timed_pt start_pt dfs s))) rest)"
    by blast
  have "sent_more w w2 ([] @ [(arm, pt)])"
    using sent_more_trans[OF sent_more_nil_advance w2(2)] .
  then have "sent_more w (advance w2) (([] @ [(arm, pt)]) @ [])"
    using sent_more_trans[OF _ sent_more_nil_advance] by blast
  from sent_more_trans[OF this w'(2)]
  have "sent_more w w' (map (\<lambda>s. (arm, the_point (timed_pt start_pt dfs s))) (step # rest))"
    by (simp add: pt the_point_def)
  moreover have "timed_step_loop arm start_pt dfs (step # rest) False w = Some (Returned False w')"
    by (simp add: pt pc w2 sr w')
  ultimately show ?case by blast
qed


lemma smooth_loop_sendable:
  "list_all (\<lambda>i. sendable (smooth_pt cur dfs i)) steps \<Longrightarrow>
   \<exists>w'. smooth_loop arm cur dfs steps w = Returned () w'
      \<and> sent_more w w' (map (\<lambda>i. (arm, the_point (smooth_pt cur dfs i))) steps)"
proof (induction steps arbitrary: w)
  case Nil
  then show ?case by simp
next
  case (Cons i rest)
  from Cons.prems obtain pt where pt: "smooth_pt cur dfs i = Inr pt" "sendable (Inr pt)"
    by (cases "smooth_pt cur dfs i") (auto simp add: sendable_def)
  from send_point_sendable[OF pt(2), of arm w] obtain w1 where
    w1: "send_point arm pt w = Returned () w1" "sent_more w w1 [(arm, pt)]" by blast
  from Cons.prems have "list_all (\<lambda>i. sendable (smooth_pt cur dfs i)) rest" by simp
  from Cons.IH[OF this, of w1] obtain w' where
    w': "smooth_loop arm cur dfs rest w1 = Returned () w'"
    "sent_more w1 w' (map (\<lambda>i. (arm, the_point (smooth_pt cur dfs i))) rest)" by blast
  from sent_more_trans[OF w1(2) w'(2)]
  have "sent_more w w' (map (\<lambda>i. (arm, the_point (smooth_pt cur dfs i))) (i # rest))"
    by (simp add: pt the_point_def)
  moreover have "smooth_loop arm cur dfs (i # rest) w = Returned () w'"
    by (simp add: pt w1 w')
  ultimately show ?case by blast
qed

lemma current_point_steady:
  assumes "\<forall>k. feedback w arm k = pose" and "list_ex (\<lambda>v. v \<noteq> 0) pose"
  shows "\<exists>w'. current_point arm w = Some (pose, w') \<and> sent_more w w' []"
proof -
  let ?w2 = "advance (advance w)"
  have "current_point_loop arm (fadd (perf_clock w (tick w)) (float_lit 1 10))
          (wall_clock (advance w) (tick (advance w))) ?w2 = Some (pose, advance ?w2)"
    using assms
    by (subst current_point_loop.simps) (simp add: read_feedback_def advance_def)
  then have "current_point arm w = Some (pose, advance ?w2)"
    by (simp add: current_point_def perf_counter_def time_time_def)
  moreover have "sent_more w (advance ?w2) []"
    by (simp add: sent_more_def same_env_def advance_def)
  ultimately show ?thesis by blast
qed

lemma move_smooth_steady:
  assumes fb: "\<forall>k. feedback w arm k = pose" and nz: "list_ex (\<lambda>v. v \<noteq> 0) pose"
    and df: "smooth_diffs pose target_pt steps = Inr dfs"
    and hz: "hz \<noteq> 0" and tg: "target_pt \<noteq> []"
    and ok: "list_all (\<lambda>i. sendable (smooth_pt pose dfs i)) [0..steps - 1]"
  shows "\<exists>resp w'. move_smooth arm target_pt steps hz w = Some (Returned resp w')
      \<and> sent_more w w' (map (\<lambda>i. (arm, the_point (smooth_pt pose dfs i))) [0..steps - 1])"
proof -
  from current_point_steady[OF fb nz] obtain w1 where
    w1: "current_point arm w = Some (pose, w1)" "sent_more w w1 []" by blast
  from smooth_loop_sendable[OF ok, of arm w1] obtain w2 where
    w2: "smooth_loop arm pose dfs [0..steps - 1] w1 = Returned () w2"
    "sent_more w1 w2 (map (\<lambda>i. (arm, the_point (smooth_pt pose dfs i))) [0..steps - 1])"
    by blast
  have fb2: "\<forall>k. feedback w2 arm k = pose"
    using fb w1(2) w2(2) by (simp add: sent_more_def same_env_def)
  from current_point_steady[OF fb2 nz] obtain w3 where
    w3: "current_point arm w2 = Some (pose, w3)" "sent_more w2 w3 []" by blast
  have pn: "pose \<noteq> []" using nz by auto
  obtain close where cl: "is_close_strict pose target_pt TOLERANCE_ANGLE_UNITS None = Inr close"
    using pn tg by (simp add: is_close_strict_def Let_def)
  have s: "sent_more w w3 (map (\<lambda>i. (arm, the_point (smooth_pt pose dfs i))) [0..steps - 1])"
    using sent_more_trans[OF sent_more_trans[OF w1(2) w2(2)] w3(2)] by simp
  have "\<exists>resp. move_smooth arm target_pt steps hz w = Some (Returned resp w3)"
    by (cases close) (simp_all add: move_smooth_def w1 df hz w2 w3 cl)
  with s show ?thesis by blast
qed


lemma quiet_quiet_world [simp]: "quiet (quiet_world pose)"
  by (simp add: quiet_def quiet_world_def)

lemma prepare_sent_more:
  "same_env w (prepare_track_play arm w)
   \<and> cmds (prepare_track_play arm w) = cmds w @ [(arm, EnableArm 7), (arm, ModeCtrl 1 1 (Some 50))]
   \<and> sent_points (prepare_track_play arm w) = sent_points w"
  by (simp add: prepare_track_play_def sdk_call_def same_env_def)

lemma grab_segment_evaluated:
  "timed_steps (float_lit 5 10) (speed_up (track_name grab_track)) 50 = Inr 25
   \<and> (case smooth_diffs [0, 0, 0, 0, 0, 0, 0] [0, 0, 0, 0, 0, 0, 29] 25 of
        Inl e \<Rightarrow> False
      | Inr dfs \<Rightarrow>
          list_all (\<lambda>s. sendable (timed_pt [0, 0, 0, 0, 0, 0, 0] dfs s)) [1..25]
          \<and> the_point (timed_pt [0, 0, 0, 0, 0, 0, 0] dfs 25) = [0, 0, 0, 0, 0, 0, 28])"
  by code_simp

text \<open>
  C1. The step count and the interpolation are as claimed, but the pose emitted at the
  final step is not always the target: with a segment of 0.5 s at 50 Hz (25 steps) from
  gripper value 0 to 29, the binary64 product \<open>(29 / 25) \<cdot> 25\<close> is just below 29 and
  \<^verbatim>\<open>int\<close> truncates it, so the last of the 25 points sent has gripper value 28.
\<close>

theorem timed_final_pose_short_of_target:
  "timed_steps (float_lit 5 10) (speed_up (track_name grab_track)) 50 = Inr 25
   \<and> (\<exists>w'. run_timed_track Right grab_track 50 (quiet_world [0, 0, 0, 0, 0, 0, 0])
             = Some (Returned () w')
          \<and> length (sent_points w') = 25
          \<and> last (sent_points w') = (Right, [0, 0, 0, 0, 0, 0, 28]))
   \<and> last (points grab_track) = [0, 0, 0, 0, 0, 0, 29]"
proof -
  let ?z = "[0, 0, 0, 0, 0, 0, 0] :: int list"
  let ?wq = "quiet_world ?z"
  let ?wa = "prepare_track_play Right ?wq"
  have st: "timed_steps (float_lit 5 10) (speed_up (track_name grab_track)) 50 = Inr 25"
    using grab_segment_evaluated by blast
  obtain dfs where df: "smooth_diffs ?z [0, 0, 0, 0, 0, 0, 29] 25 = Inr dfs"
    and ok: "list_all (\<lambda>s. sendable (timed_pt ?z dfs s)) [1..25]"
    and fin: "the_point (timed_pt ?z dfs 25) = [0, 0, 0, 0, 0, 0, 28]"
    using grab_segment_evaluated
    by (cases "smooth_diffs ?z [0, 0, 0, 0, 0, 0, 29] 25") auto
  have q0: "quiet ?wa"
    by (rule same_env_quiet[OF conjunct1[OF prepare_sent_more] quiet_quiet_world])
  from timed_step_loop_quiet[OF q0 ok, of Right] obtain w1 where
    w1: "timed_step_loop Right ?z dfs [1..25] False ?wa = Some (Returned False w1)"
    and s1: "sent_more ?wa w1 (map (\<lambda>s. (Right, the_point (timed_pt ?z dfs s))) [1..25])"
    by blast
  have q1: "quiet w1" using sent_more_quiet[OF s1 q0] .
  let ?wb = "advance w1"
  have q2: "quiet ?wb" using q1 same_env_quiet same_env_advance by blast
  let ?wc = "snd (play_stop_is_set (sdk_call Right (ModeCtrl 0 0 None) ?wb))"
  have seg: "[Suc 0..<2] = [Suc 0]"
    by (simp add: upt_rec numeral_2_eq_2)
  have loop: "timed_segment_loop Right grab_track 50 [Suc 0] ?wa = Some (Returned () ?wb)"
    using st df w1 quiet_stop_read[OF q1]
    by (simp add: grab_track_def)
  have len2: "length (points grab_track) = 2"
    by (simp add: grab_track_def)
  have run: "run_timed_track Right grab_track 50 ?wq = Some (Returned () ?wc)"
    by (simp add: run_timed_track_def seg loop len2 del: timed_segment_loop.simps)
  have sp: "sent_points ?wc = map (\<lambda>s. (Right, the_point (timed_pt ?z dfs s))) [1..25]"
    using s1 prepare_sent_more[of ?wq Right]
    by (simp add: sent_more_def play_stop_is_set_def advance_def sdk_call_def quiet_world_def)
  have l25: "[1..25] = [1..24] @ [25::int]" by code_simp
  have len: "length (sent_points ?wc) = 25" by (simp add: sp)
  have lst: "last (sent_points ?wc) = (Right, [0, 0, 0, 0, 0, 0, 28])"
    by (simp only: sp l25 map_append last_snoc list.map fin)
  have tgt: "last (points grab_track) = [0, 0, 0, 0, 0, 0, 29]"
    by (simp add: grab_track_def)
  show ?thesis using st run len lst tgt by blast
qed

subsection \<open>One-point tracks and the glide to the start\<close>

lemma reach_glide_evaluated:
  "(case smooth_diffs [1000, 0, 0, 0, 0, 0, 0] [101000, 0, 0, 0, 0, 0, 0] 100 of
      Inl e \<Rightarrow> False
    | Inr dfs \<Rightarrow>
        list_all (\<lambda>i. sendable (smooth_pt [1000, 0, 0, 0, 0, 0, 0] dfs i)) [0..100 - 1]
        \<and> the_point (smooth_pt [1000, 0, 0, 0, 0, 0, 0] dfs 99) = [100000, 0, 0, 0, 0, 0, 0])"
  by code_simp

text \<open>
  C7. An empty timed track issues no command and logs a warning, as claimed. A track of
  one point prepares the mode, glides and disengages, but the glide does not go to the
  point: \<^verbatim>\<open>_move_smooth\<close> sends the poses for \<open>i = 0, \<dots>, 99\<close> of 100 steps, so from
  joint value 1000 towards the point 101000 the last of the 100 poses sent is 100000, one
  step short, and nothing later commands the point itself.
\<close>

theorem one_point_track_stops_short:
  "(\<exists>w'. run_timed_track Left one_point_track 50 (quiet_world [1000, 0, 0, 0, 0, 0, 0])
            = Some (Returned () w')
        \<and> take 2 (cmds w') = [(Left, EnableArm 7), (Left, ModeCtrl 1 1 (Some 50))]
        \<and> length (sent_points w') = 100
        \<and> last (sent_points w') = (Left, [100000, 0, 0, 0, 0, 0, 0])
        \<and> last (cmds w') = (Left, ModeCtrl 0 0 None))
   \<and> points one_point_track ! 0 = [101000, 0, 0, 0, 0, 0, 0]
   \<and> (\<exists>w'. run_timed_track Left empty_track 50 (quiet_world [1000, 0, 0, 0, 0, 0, 0])
            = Some (Returned () w')
        \<and> cmds w' = [] \<and> warnings w' = [''[PLAY_V2] empty track''])"
proof -
  let ?p = "[1000, 0, 0, 0, 0, 0, 0] :: int list"
  let ?t = "[101000, 0, 0, 0, 0, 0, 0] :: int list"
  let ?wq = "quiet_world ?p"
  let ?wa = "prepare_track_play Left ?wq"
  obtain dfs where df: "smooth_diffs ?p ?t 100 = Inr dfs"
    and ok: "list_all (\<lambda>i. sendable (smooth_pt ?p dfs i)) [0..100 - 1]"
    and fin: "the_point (smooth_pt ?p dfs 99) = [100000, 0, 0, 0, 0, 0, 0]"
    using reach_glide_evaluated
    by (cases "smooth_diffs ?p ?t 100") auto
  have fb: "\<forall>k. feedback ?wa Left k = ?p"
    using prepare_sent_more[of ?wq Left] by (simp add: same_env_def quiet_world_def)
  have nz: "list_ex (\<lambda>v. v \<noteq> 0) ?p" by simp
  have hz: "(50::int) \<noteq> 0" and tg: "?t \<noteq> []" by simp_all
  from move_smooth_steady[OF fb nz df hz tg ok] obtain resp w1 where
    m: "move_smooth Left ?t 100 50 ?wa = Some (Returned resp w1)"
    and s: "sent_more ?wa w1 (map (\<lambda>i. (Left, the_point (smooth_pt ?p dfs i))) [0..100 - 1])"
    by blast
  let ?wb = "sdk_call Left (ModeCtrl 0 0 None) w1"
  let ?sent = "map (\<lambda>i. (Left, the_point (smooth_pt ?p dfs i))) [0..100 - 1]"
  have pt0: "points one_point_track ! 0 = ?t" by (simp add: one_point_track_def)
  have len1: "length (points one_point_track) = 1" by (simp add: one_point_track_def)
  have run: "run_timed_track Left one_point_track 50 ?wq = Some (Returned () ?wb)"
    by (simp add: run_timed_track_def len1 pt0 m)
  have ca: "cmds ?wa = [(Left, EnableArm 7), (Left, ModeCtrl 1 1 (Some 50))]"
    using prepare_sent_more[of ?wq Left] by (simp add: quiet_world_def)
  have sa: "sent_points ?wa = []"
    using prepare_sent_more[of ?wq Left] by (simp add: quiet_world_def)
  have cb: "cmds ?wb = [(Left, EnableArm 7), (Left, ModeCtrl 1 1 (Some 50))]
      @ concat (map send_cmds ?sent) @ [(Left, ModeCtrl 0 0 None)]"
    using s ca by (simp add: sent_more_def sdk_call_def)
  have sb: "sent_points ?wb = ?sent"
    using s sa by (simp add: sent_more_def sdk_call_def)
  have c1: "take 2 (cmds ?wb) = [(Left, EnableArm 7), (Left, ModeCtrl 1 1 (Some 50))]"
    by (simp add: cb)
  have c2: "last (cmds ?wb) = (Left, ModeCtrl 0 0 None)"
    by (simp add: cb)
  have l99: "[0..100 - 1] = [0..98] @ [99::int]" by code_simp
  have c3: "length (sent_points ?wb) = 100" by (simp add: sb)
  have c4: "last (sent_points ?wb) = (Left, [100000, 0, 0, 0, 0, 0, 0])"
    by (simp only: sb l99 map_append last_snoc list.map fin)
  have e: "run_timed_track Left empty_track 50 ?wq
      = Some (Returned () (log_warning ''[PLAY_V2] empty track'' ?wq))"
    by (simp add: run_timed_track_def empty_track_def)
  have e1: "cmds (log_warning ''[PLAY_V2] empty track'' ?wq) = []"
    and e2: "warnings (log_warning ''[PLAY_V2] empty track'' ?wq) = [''[PLAY_V2] empty track'']"
    by (simp_all add: log_warning_def quiet_world_def)
  show ?thesis using run c1 c3 c4 c2 pt0 e e1 e2 by blast
qed

text \<open>
  C3. With the arm 20 degrees away from the first point of the track, \<^verbatim>\<open>cmd_play\<close>
  does not glide: it raises \<^verbatim>\<open>AttributeError\<close> for the missing method
  \<^verbatim>\<open>_safe_move_smooth\<close>, having issued no command at all.
\<close>

theorem cmd_play_glide_raises:
  "outcome_error (cmd_play wave_store [[[0, 0, 0, 0, 0, 0, 0]]] [''left__wave'']
       (quiet_world [20000, 0, 0, 0, 0, 0, 0]))
     = Some (AttributeError ''_safe_move_smooth'')
   \<and> map_option cmds (outcome_world (cmd_play wave_store [[[0, 0, 0, 0, 0, 0, 0]]] [''left__wave'']
       (quiet_world [20000, 0, 0, 0, 0, 0, 0])))
     = Some []
   \<and> \<not> is_close_ignored [20000, 0, 0, 0, 0, 0, 0] (coordinates wave_point) TOLERANCE_ANGLE_UNITS"
  by code_simp

subsection \<open>Every sent point is tightened: the claim\<close>



lemma tightened_quiet_world [simp]: "tightened (quiet_world pose)"
  by (simp add: tightened_def quiet_world_def)



subsection \<open>Inter-process command channel\<close>

lemma worker_run_reply_ids:
  "map r_id (worker_run exec term [Call meth args i]) = [i]"
  by (cases "term") (auto split: prod.splits sum.splits)

text \<open>
  C9. Every call is sent with the id \<open>req_id + 1\<close>, which becomes the proxy's new
  \<open>req_id\<close>, so the ids of successive calls increase strictly; without a reply the call
  has no outcome (the caller blocks); a reply with a different id raises the
  \<^verbatim>\<open>RuntimeError\<close> for an out-of-order reply; a reply with the call's id and
  \<^verbatim>\<open>ok\<close> true yields the result; and when the delegated call raises an exception in
  the worker, the worker sends an error reply with the call's id and goes on to serve the
  remaining messages in the state the call left (as it does after a successful call).
\<close>

theorem ipc_call_protocol:
  "fst (snd (send_call p meth args incoming)) = Call meth args (req_id p + 1)
   \<and> req_id (fst (send_call p meth args incoming)) = req_id p + 1
   \<and> snd (snd (send_call p meth args None)) = None
   \<and> (r_id resp \<noteq> req_id p + 1 \<longrightarrow>
        snd (snd (send_call p meth args (Some resp)))
          = Some (Inl (RuntimeError ''out-of-order IPC reply'')))
   \<and> (r_id resp = req_id p + 1 \<and> r_ok resp \<longrightarrow>
        snd (snd (send_call p meth args (Some resp))) = Some (Inr (r_result resp)))
   \<and> (exec s meth args = (Inl (exc, tb), s') \<longrightarrow>
        worker_run exec (Some s) (Call meth args call_id # msgs)
          = \<lparr>r_ok = False, r_result = None, r_error = Some exc, r_trace = Some tb,
              r_id = call_id\<rparr> # worker_run exec (Some s') msgs)
   \<and> (exec s meth args = (Inr result, s') \<longrightarrow>
        worker_run exec (Some s) (Call meth args call_id # msgs)
          = \<lparr>r_ok = True, r_result = Some result, r_error = None, r_trace = None,
              r_id = call_id\<rparr> # worker_run exec (Some s') msgs)"
  by (simp add: send_call_def Let_def)

text \<open>
  With a live worker on the other end, every call of a sequence returns or raises the
  worker's error; none blocks and none sees an out-of-order reply.
\<close>

lemma call_sequence_outcomes:
  "length (call_sequence exec p (Some s) calls) = length calls
   \<and> Some (Inl (RuntimeError ''out-of-order IPC reply'')) \<notin> set (call_sequence exec p (Some s) calls)
   \<and> None \<notin> set (call_sequence exec p (Some s) calls)"
proof (induction calls arbitrary: p s)
  case Nil
  then show ?case by simp
next
  case (Cons c calls)
  obtain meth args where c: "c = (meth, args)" by (cases c)
  obtain r s' where e: "exec s meth args = (r, s')" by (cases "exec s meth args")
  show ?case using Cons.IH[of "p\<lparr>req_id := req_id p + 1\<rparr>" s']
    by (cases r) (auto simp add: c e send_call_def Let_def split: prod.splits)
qed

theorem ipc_call_protocol_witness:
  "worker_run counting_exec (Some 0) [Call ''boom'' () (1::nat), Call ''get'' () 2]
     = [\<lparr>r_ok = False, r_result = None, r_error = Some ''ValueError()'', r_trace = Some ''Traceback'',
          r_id = 1\<rparr>,
        \<lparr>r_ok = True, r_result = Some 0, r_error = None, r_trace = None, r_id = 2\<rparr>]
   \<and> snd (snd (send_call ArmProxy_init ''get'' ()
          (Some \<lparr>r_ok = True, r_result = Some (0::nat), r_error = None, r_trace = None, r_id = 7\<rparr>)))
       = Some (Inl (RuntimeError ''out-of-order IPC reply''))
   \<and> snd (snd (send_call ArmProxy_init ''get'' ()
          (Some \<lparr>r_ok = True, r_result = Some (0::nat), r_error = None, r_trace = None, r_id = 1\<rparr>)))
       = Some (Inr (Some 0))"
proof -
  have e1: "counting_exec 0 ''boom'' () = (Inl (''ValueError()'', ''Traceback''), 0)"
    by (simp add: counting_exec_def)
  have e2: "counting_exec 0 ''get'' () = (Inr 0, Suc 0)"
    by (simp add: counting_exec_def)
  have a: "worker_run counting_exec (Some 0) (Call ''boom'' () (1::nat) # [Call ''get'' () 2])
      = \<lparr>r_ok = False, r_result = None, r_error = Some ''ValueError()'', r_trace = Some ''Traceback'',
          r_id = 1\<rparr> # worker_run counting_exec (Some 0) [Call ''get'' () 2]"
    using ipc_call_protocol[where exec = counting_exec and s = 0 and meth = "''boom''"
        and args = "()" and exc = "''ValueError()''" and tb = "''Traceback''" and s' = 0
        and call_id = "1::nat" and msgs = "[Call ''get'' () 2]"] e1
    by blast
  have b: "worker_run counting_exec (Some 0) [Call ''get'' () (2::nat)]
      = [\<lparr>r_ok = True, r_result = Some 0, r_error = None, r_trace = None, r_id = 2\<rparr>]"
    using e2 by simp
  have c: "snd (snd (send_call ArmProxy_init ''get'' ()
          (Some \<lparr>r_ok = True, r_result = Some (0::nat), r_error = None, r_trace = None, r_id = 7\<rparr>)))
       = Some (Inl (RuntimeError ''out-of-order IPC reply''))"
    by (simp add: send_call_def ArmProxy_init_def)
  have d: "snd (snd (send_call ArmProxy_init ''get'' ()
          (Some \<lparr>r_ok = True, r_result = Some (0::nat), r_error = None, r_trace = None, r_id = 1\<rparr>)))
       = Some (Inr (Some 0))"
    by (simp add: send_call_def ArmProxy_init_def)
  show ?thesis using a b c d by simp
qed

text \<open>
  C10. Canonicalisation is claimed to leave every name with the canonical prefix
  \<^verbatim>\<open>left__\<close> or \<^verbatim>\<open>right__\<close> unchanged, and hence to be idempotent. The
  \<^verbatim>\<open>left_\<close> branch lacks the guard that the \<^verbatim>\<open>right_\<close> and \<^verbatim>\<open>scene_\<close>
  branches carry: the canonical name \<^verbatim>\<open>left__wave\<close> gains a third underscore, and
  canonicalising \<^verbatim>\<open>left_wave\<close> twice differs from canonicalising it once, whereas
  \<^verbatim>\<open>right__wave\<close> is kept.
\<close>

theorem canon_name_left_prefix_not_fixed:
  "canon_name ''left__wave'' = ''left___wave''
   \<and> canon_name (canon_name ''left_wave'') \<noteq> canon_name ''left_wave''
   \<and> canon_name ''right__wave'' = ''right__wave''"
  by (simp add: canon_name_def startswith_def)

end
